theory Spec2Isabelle
  imports Main "HOL-Library.Word"
begin

unbundle bit_operations_syntax

section \<open>The OpenGL program shader cache (ProgramShaderCache.cpp)\<close>

text \<open>
  A shallow embedding of \<^verbatim>\<open>Source/Core/VideoBackends/OGL/ProgramShaderCache.cpp\<close>.
  The file-level statics of the source (\<^verbatim>\<open>CurrentProgram\<close>, \<^verbatim>\<open>pshaders\<close>,
  \<^verbatim>\<open>last_entry\<close>, \<^verbatim>\<open>last_uid\<close>, \<^verbatim>\<open>s_buffer\<close>, ...) are the fields of one state
  record that every operation takes and returns. The OpenGL driver is a field of that
  state: a table of the objects it holds, the answers it gives (compile, link and
  binary-load status, the uniform-buffer alignment) and the list of the calls made to it,
  in order, so that a claim about how often the driver is called is a claim about that list.

  Not modelled: the text of the GLSL header (\<^verbatim>\<open>CreateHeader\<close>), which is the same for
  every compilation of a session and is part of what the driver's compile answer depends
  on; the info logs, dump files and alerts written when a compile or link fails; the uid
  checkers of the debugging mode; and the driver calls that change nothing the state below
  records (attribute, fragment-output, uniform-block and sampler bindings, attaching
  shaders, the binary-retrievable hint).
\<close>

subsection \<open>The driver\<close>

type_synonym GLuint = nat
type_synonym u8 = "8 word"
type_synonym u32 = "32 word"
type_synonym s32 = "32 word"
type_synonym size_t = "64 word"

datatype shader_type = GL_VERTEX_SHADER | GL_FRAGMENT_SHADER | GL_GEOMETRY_SHADER

datatype block = PixelBlock | VertexBlock | GeometryBlock

text \<open>
  The calls made to the driver and to the stream buffer, as the trace records them.
  \<open>E_Memcpy b off len\<close> copies \<open>len\<close> bytes of the constants of block \<open>b\<close> to
  offset \<open>off\<close> of the mapped region; \<open>E_BindBufferRange i buf off len\<close> is
  \<^verbatim>\<open>glBindBufferRange(GL_UNIFORM_BUFFER, i, buf, off, len)\<close>.
\<close>

datatype event =
    E_CreateShader shader_type GLuint
  | E_CompileShader GLuint string
  | E_DeleteShader GLuint
  | E_CreateProgram GLuint
  | E_LinkProgram GLuint
  | E_ProgramBinary GLuint "u8 list"
  | E_DeleteProgram GLuint
  | E_UseProgram GLuint
  | E_GetAlignment
  | E_CreateBuffer GLuint
  | E_DeleteBuffer GLuint
  | E_Map u32 s32
  | E_Memcpy block size_t size_t
  | E_Unmap u32
  | E_BindBufferRange nat GLuint size_t size_t

text \<open>
  A program object of the driver: its link status, whether it is flagged for deletion
  (deleted while in use), and the bytes \<^verbatim>\<open>glGetProgramBinary\<close> gives for it (the
  format tag, four bytes, then the binary).
\<close>

record program =
  link_status :: bool
  delete_status :: bool
  blob :: "u8 list"

text \<open>
  The driver. Object names are handed out from a counter that starts above zero and never
  goes back, so a name is never given twice; zero is the name of no object. The fields
  \<open>compile_ok\<close>, \<open>link_ok\<close>, \<open>link_blob\<close>, \<open>binary_ok\<close>, \<open>get_binary_ok\<close>,
  \<open>ubo_alignment\<close> and \<open>num_binary_formats\<close> are the driver's answers, which no call
  changes: \<open>get_binary_ok p\<close> says that \<^verbatim>\<open>glGetProgramBinary\<close> on \<open>p\<close> raises no
  error, and \<open>ubo_alignment\<close> is \<open>None\<close> when the query fails and writes nothing.
\<close>

record gl =
  next_name :: GLuint
  shaders :: "GLuint set"
  programs :: "GLuint \<rightharpoonup> program"
  used_program :: GLuint
  calls :: "event list"
  compile_ok :: "shader_type \<Rightarrow> string \<Rightarrow> bool"
  link_ok :: "string \<Rightarrow> string \<Rightarrow> string option \<Rightarrow> bool"
  link_blob :: "string \<Rightarrow> string \<Rightarrow> string option \<Rightarrow> u8 list"
  binary_ok :: "u8 list \<Rightarrow> bool"
  get_binary_ok :: "GLuint \<Rightarrow> bool"
  ubo_alignment :: "s32 option"
  num_binary_formats :: int

definition issue :: "event \<Rightarrow> gl \<Rightarrow> gl" where
  "issue e g = g\<lparr>calls := calls g @ [e]\<rparr>"

definition glCreateShader :: "shader_type \<Rightarrow> gl \<Rightarrow> GLuint \<times> gl" where
  "glCreateShader ty g =
     (let n = Suc (next_name g)
      in (n, issue (E_CreateShader ty n) (g\<lparr>next_name := n, shaders := insert n (shaders g)\<rparr>)))"

text \<open>
  \<^verbatim>\<open>glShaderSource\<close>, \<^verbatim>\<open>glCompileShader\<close> and the query of \<^verbatim>\<open>GL_COMPILE_STATUS\<close>,
  in one step: the driver compiles the source given for the stage and answers.
\<close>

definition glCompileShader :: "shader_type \<Rightarrow> GLuint \<Rightarrow> string \<Rightarrow> gl \<Rightarrow> bool \<times> gl" where
  "glCompileShader ty n src g = (compile_ok g ty src, issue (E_CompileShader n src) g)"

text \<open>\<^verbatim>\<open>glDeleteShader\<close>: the name zero is silently ignored.\<close>

definition glDeleteShader :: "GLuint \<Rightarrow> gl \<Rightarrow> gl" where
  "glDeleteShader n g = issue (E_DeleteShader n) (g\<lparr>shaders := shaders g - {n}\<rparr>)"

definition glCreateProgram :: "gl \<Rightarrow> GLuint \<times> gl" where
  "glCreateProgram g =
     (let n = Suc (next_name g)
      in (n, issue (E_CreateProgram n)
               (g\<lparr>next_name := n,
                  programs := (programs g)(n \<mapsto> \<lparr>link_status = False, delete_status = False, blob = []\<rparr>)\<rparr>)))"

text \<open>
  \<^verbatim>\<open>glLinkProgram\<close> and the query of \<^verbatim>\<open>GL_LINK_STATUS\<close>: the driver links the stages
  compiled from the three sources and answers.
\<close>

definition glLinkProgram :: "GLuint \<Rightarrow> string \<Rightarrow> string \<Rightarrow> string option \<Rightarrow> gl \<Rightarrow> bool \<times> gl" where
  "glLinkProgram pid vcode pcode gcode g =
     (let ok = link_ok g vcode pcode gcode
      in (ok, issue (E_LinkProgram pid)
                (g\<lparr>programs := (programs g)(pid \<mapsto>
                     \<lparr>link_status = ok, delete_status = False,
                      blob = (if ok then link_blob g vcode pcode gcode else [])\<rparr>)\<rparr>)))"

text \<open>\<^verbatim>\<open>glProgramBinary\<close> and the query of \<^verbatim>\<open>GL_LINK_STATUS\<close> after it.\<close>

definition glProgramBinary :: "GLuint \<Rightarrow> u8 list \<Rightarrow> gl \<Rightarrow> bool \<times> gl" where
  "glProgramBinary pid v g =
     (let ok = binary_ok g v
      in (ok, issue (E_ProgramBinary pid v)
                (g\<lparr>programs := (programs g)(pid \<mapsto>
                     \<lparr>link_status = ok, delete_status = False, blob = (if ok then v else [])\<rparr>)\<rparr>)))"

text \<open>
  \<^verbatim>\<open>glDeleteProgram\<close>: a program in use is flagged and goes when it is no longer in use;
  any other program goes at once; a name that is no program changes nothing.
\<close>

definition glDeleteProgram :: "GLuint \<Rightarrow> gl \<Rightarrow> gl" where
  "glDeleteProgram pid g =
     issue (E_DeleteProgram pid)
       (case programs g pid of
          None \<Rightarrow> g
        | Some p \<Rightarrow>
            if pid = used_program g then g\<lparr>programs := (programs g)(pid \<mapsto> p\<lparr>delete_status := True\<rparr>)\<rparr>
            else g\<lparr>programs := (programs g)(pid := None)\<rparr>)"

text \<open>
  \<^verbatim>\<open>glUseProgram\<close>: zero unbinds; a linked program is installed; any other name is an
  error and changes nothing. A program flagged for deletion goes when it is replaced.
\<close>

definition glUseProgram :: "GLuint \<Rightarrow> gl \<Rightarrow> gl" where
  "glUseProgram pid g =
     (let old = used_program g;
          valid = (pid = 0 \<or> (case programs g pid of None \<Rightarrow> False | Some p \<Rightarrow> link_status p));
          gone = (case programs g old of
                    None \<Rightarrow> False
                  | Some p \<Rightarrow> delete_status p \<and> old \<noteq> pid)
      in issue (E_UseProgram pid)
           (if valid
            then g\<lparr>used_program := pid,
                   programs := (if gone then (programs g)(old := None) else programs g)\<rparr>
            else g))"

subsection \<open>The cache's data\<close>

text \<open>
  \<^verbatim>\<open>SHADER\<close> and \<^verbatim>\<open>PCacheEntry\<close> (ProgramShaderCache.h): a program name with the
  three source texts kept when shader debugging is on, and the entry's flag that it is
  already in the disk cache.
\<close>

record SHADER =
  glprogid :: GLuint
  strvprog :: string
  strpprog :: string
  strgprog :: string

record PCacheEntry =
  shader :: SHADER
  in_cache :: bool

text \<open>
  Modelled from the spec: the constructor of \<^verbatim>\<open>SHADER\<close> is in ProgramShaderCache.h,
  which is not among the sources. A Program Entry ``owns a compiled/linked GPU program
  handle'' and is ``created on cache miss'', before anything is compiled: a new
  \<^verbatim>\<open>SHADER\<close> holds the name of no program, zero, and empty source texts.
\<close>

definition new_SHADER :: SHADER where
  "new_SHADER = \<lparr>glprogid = 0, strvprog = [], strpprog = [], strgprog = []\<rparr>"

text \<open>
  The stream buffer (StreamBuffer.h): the name of its buffer object, its size and the
  offset where the next mapping starts.
\<close>

record StreamBuffer =
  m_buffer :: GLuint
  m_size :: u32
  m_iterator :: u32

datatype error = NullDereference | DanglingDereference

text \<open>
  The statics of the file, the statistics it counts, the dirty flags of the three constant
  managers, the contents of the disk cache file and the driver. \<^verbatim>\<open>pshaders\<close> is a
  \<^verbatim>\<open>std::map\<close>: an association list in key order, one pair per key.
  \<^verbatim>\<open>last_entry\<close> points to a node of that map or is null: it is the key of the node,
  and it dangles when the map has no node for that key.
\<close>

record 'u state =
  driver :: gl
  CurrentProgram :: GLuint
  numShaderChanges :: int
  numPixelShadersCreated :: int
  numPixelShadersAlive :: int
  bytesUniformStreamed :: int
  pshaders :: "('u \<times> PCacheEntry) list"
  last_entry :: "'u option"
  last_uid :: 'u
  s_ubo_align :: s32
  s_ubo_buffer_size :: u32
  s_buffer :: "StreamBuffer option"
  bSupportsGLSLCache :: bool
  pixel_dirty :: bool
  vertex_dirty :: bool
  geometry_dirty :: bool
  disk_cache :: "('u \<times> u8 list) list"

text \<open>
  What the file takes from its collaborators, fixed while it runs: the uid and the source
  texts generated for a pipeline state \<open>'r\<close> (the arguments of \<^verbatim>\<open>SetShader\<close> together
  with \<^verbatim>\<open>xfmem\<close> and \<^verbatim>\<open>bpmem\<close>), the configuration flags it reads, and the byte sizes
  of the three constant blocks.
\<close>

record ('r, 'u) env =
  ShaderUid :: "'r \<Rightarrow> 'u"
  VertexShaderCode :: "'r \<Rightarrow> string"
  PixelShaderCode :: "'r \<Rightarrow> string"
  GeometryShaderCode :: "'r \<Rightarrow> string"
  IsPassthrough :: "'u \<Rightarrow> bool"
  bSupportsGeometryShaders :: bool
  bSupportsBindingLayout :: bool
  active_bEnableShaderDebugging :: bool
  config_bEnableShaderDebugging :: bool
  pixel_buffer_size :: size_t
  vertex_buffer_size :: size_t
  geometry_buffer_size :: size_t

subsection \<open>Binding and compiling\<close>

text \<open>\<^verbatim>\<open>SHADER::Bind\<close>.\<close>

definition Bind :: "SHADER \<Rightarrow> 'u state \<Rightarrow> 'u state" where
  "Bind sh s =
     (if CurrentProgram s \<noteq> glprogid sh
      then s\<lparr>numShaderChanges := numShaderChanges s + 1,
             driver := glUseProgram (glprogid sh) (driver s),
             CurrentProgram := glprogid sh\<rparr>
      else s)"

text \<open>
  \<^verbatim>\<open>SHADER::SetProgramVariables\<close>: without binding layouts the program is bound so that
  its uniform blocks and samplers can be assigned.
\<close>

definition SetProgramVariables :: "('r, 'u) env \<Rightarrow> SHADER \<Rightarrow> 'u state \<Rightarrow> 'u state" where
  "SetProgramVariables env sh s = (if \<not> bSupportsBindingLayout env then Bind sh s else s)"

text \<open>
  \<^verbatim>\<open>CompileSingleShader\<close>: the source given to the driver is the header, the macros and
  the code; a stage that fails to compile is deleted and the result is zero.
\<close>

definition CompileSingleShader :: "shader_type \<Rightarrow> string \<Rightarrow> string list \<Rightarrow> gl \<Rightarrow> GLuint \<times> gl" where
  "CompileSingleShader ty code macros g =
     (let (result, g1) = glCreateShader ty g;
          (compileStatus, g2) = glCompileShader ty result (concat macros @ code) g1
      in if \<not> compileStatus then (0, glDeleteShader result g2) else (result, g2))"

text \<open>
  \<^verbatim>\<open>CompileShader\<close>: the result, the \<^verbatim>\<open>SHADER\<close> passed by reference as it is left, and
  the state. A null \<^verbatim>\<open>gcode\<close> is \<open>None\<close>.
\<close>

definition CompileShader ::
  "('r, 'u) env \<Rightarrow> SHADER \<Rightarrow> string \<Rightarrow> string \<Rightarrow> string option \<Rightarrow> string list \<Rightarrow> 'u state
     \<Rightarrow> bool \<times> SHADER \<times> 'u state" where
  "CompileShader env sh vcode pcode gcode macros s =
     (let (vsid, g1) = CompileSingleShader GL_VERTEX_SHADER vcode macros (driver s);
          (psid, g2) = CompileSingleShader GL_FRAGMENT_SHADER pcode macros g1;
          (gsid, g3) = (case gcode of
                          None \<Rightarrow> (0, g2)
                        | Some c \<Rightarrow> CompileSingleShader GL_GEOMETRY_SHADER c macros g2)
      in if vsid = 0 \<or> psid = 0 \<or> (gcode \<noteq> None \<and> gsid = 0)
         then (False, sh,
               s\<lparr>driver := glDeleteShader gsid (glDeleteShader psid (glDeleteShader vsid g3))\<rparr>)
         else
           let (pid, g4) = glCreateProgram g3;
               sh1 = sh\<lparr>glprogid := pid\<rparr>;
               (linkStatus, g5) = glLinkProgram pid vcode pcode gcode g4;
               g6 = glDeleteShader gsid (glDeleteShader psid (glDeleteShader vsid g5))
           in if \<not> linkStatus
              then (False, sh1, s\<lparr>driver := glDeleteProgram pid g6\<rparr>)
              else (True, sh1, SetProgramVariables env sh1 (s\<lparr>driver := g6\<rparr>)))"

subsection \<open>The map of programs\<close>

text \<open>
  \<^verbatim>\<open>pshaders.find(uid)\<close> is \<^const>\<open>map_of\<close>. \<open>pc_store k e\<close> is what
  \<^verbatim>\<open>pshaders[k]\<close> followed by writes through the reference leaves: the node of \<open>k\<close>
  holds \<open>e\<close>, created at its place in key order when the map had none.
\<close>

fun pc_store :: "'u::linorder \<Rightarrow> PCacheEntry \<Rightarrow> ('u \<times> PCacheEntry) list \<Rightarrow> ('u \<times> PCacheEntry) list" where
  "pc_store k e [] = [(k, e)]"
| "pc_store k e ((k', e') # xs) =
     (if k = k' then (k, e) # xs
      else if k < k' then (k, e) # (k', e') # xs
      else (k', e') # pc_store k e xs)"

subsection \<open>Resolving a pipeline state\<close>

text \<open>
  \<^verbatim>\<open>SetShader\<close>. The result is the pointer it returns: \<open>None\<close> is \<^verbatim>\<open>nullptr\<close>, and
  \<open>Some k\<close> is the address of the \<^verbatim>\<open>SHADER\<close> in the node of key \<open>k\<close>. Reading through
  a \<^verbatim>\<open>last_entry\<close> that dangles is an error, and so is the assignment of a null
  \<^verbatim>\<open>gcode.GetBuffer()\<close> to \<^verbatim>\<open>strgprog\<close> when shader debugging is on.
\<close>

definition SetShader :: "('r, 'u::linorder) env \<Rightarrow> 'r \<Rightarrow> 'u state \<Rightarrow> error + ('u option \<times> 'u state)" where
  "SetShader env r s =
     (let uid = ShaderUid env r
      in if last_entry s \<noteq> None \<and> uid = last_uid s
         then (case last_entry s of
                 None \<Rightarrow> Inl NullDereference
               | Some k \<Rightarrow>
                   (case map_of (pshaders s) k of
                      None \<Rightarrow> Inl DanglingDereference
                    | Some e \<Rightarrow> Inr (Some k, Bind (shader e) s)))
         else
           let s1 = s\<lparr>last_uid := uid\<rparr>
           in case map_of (pshaders s1) uid of
                Some entry \<Rightarrow> Inr (Some uid, Bind (shader entry) (s1\<lparr>last_entry := Some uid\<rparr>))
              | None \<Rightarrow>
                  let vcode = VertexShaderCode env r;
                      pcode = PixelShaderCode env r;
                      gcode = (if bSupportsGeometryShaders env \<and> \<not> IsPassthrough env uid
                               then Some (GeometryShaderCode env r) else None)
                  in case (if active_bEnableShaderDebugging env
                           then (case gcode of
                                   None \<Rightarrow> Inl NullDereference
                                 | Some c \<Rightarrow> Inr (new_SHADER\<lparr>strvprog := vcode, strpprog := pcode, strgprog := c\<rparr>))
                           else Inr new_SHADER) of
                       Inl err \<Rightarrow> Inl err
                     | Inr sh0 \<Rightarrow>
                         let newentry = \<lparr>shader = sh0, in_cache = False\<rparr>;
                             s2 = s1\<lparr>pshaders := pc_store uid newentry (pshaders s1), last_entry := Some uid\<rparr>;
                             (ok, sh, s3) = CompileShader env sh0 vcode pcode gcode [] s2;
                             s4 = s3\<lparr>pshaders := pc_store uid (newentry\<lparr>shader := sh\<rparr>) (pshaders s3)\<rparr>
                         in if \<not> ok then Inr (None, s4)
                            else Inr (Some uid,
                                   Bind sh (s4\<lparr>numPixelShadersCreated := numPixelShadersCreated s4 + 1,
                                              numPixelShadersAlive := int (length (pshaders s4))\<rparr>)))"

text \<open>A run of \<^verbatim>\<open>SetShader\<close> calls, one per pipeline state of the list, in order.\<close>

fun SetShaders :: "('r, 'u::linorder) env \<Rightarrow> 'r list \<Rightarrow> 'u state \<Rightarrow> error + 'u state" where
  "SetShaders env [] s = Inr s"
| "SetShaders env (r # rs) s =
     (case SetShader env r s of
        Inl err \<Rightarrow> Inl err
      | Inr (res, s') \<Rightarrow> SetShaders env rs s')"

text \<open>\<^verbatim>\<open>GetShaderProgram\<close>: a copy of the entry \<^verbatim>\<open>last_entry\<close> points to.\<close>

definition GetShaderProgram :: "'u state \<Rightarrow> error + PCacheEntry" where
  "GetShaderProgram s =
     (case last_entry s of
        None \<Rightarrow> Inl NullDereference
      | Some k \<Rightarrow>
          (case map_of (pshaders s) k of
             None \<Rightarrow> Inl DanglingDereference
           | Some e \<Rightarrow> Inr e))"

subsection \<open>The uniform stream buffer\<close>

text \<open>
  Modelled from the spec: \<^verbatim>\<open>ROUND_UP\<close> is a macro of the common headers, which are not
  among the sources. Each block is ``rounded up to the driver-reported uniform-buffer
  alignment'': the macro adds the alignment less one and clears the bits below it, with the
  \<^verbatim>\<open>s32\<close> alignment converted to \<^verbatim>\<open>size_t\<close> as C++ converts it.
\<close>

definition ROUND_UP :: "size_t \<Rightarrow> s32 \<Rightarrow> size_t" where
  "ROUND_UP x a = (x + scast a - 1) AND scast (NOT (a - 1))"

definition UBO_LENGTH :: u32 where
  "UBO_LENGTH = 32 * 1024 * 1024"

text \<open>
  Modelled from the spec: \<^verbatim>\<open>StreamBuffer\<close> is in StreamBuffer.h and StreamBuffer.cpp,
  which are not among the sources. It is ``a ring-allocator over a large GPU-visible
  buffer, handing out aligned, non-overlapping regions per upload'': \<open>Create\<close> makes the
  buffer object, \<open>Map\<close> aligns the offset of the next region, starts again at zero when
  the region does not fit, and gives that offset, \<open>Unmap\<close> moves past the bytes used, and
  deleting the stream buffer deletes the buffer object.
\<close>

definition StreamBuffer_Create :: "u32 \<Rightarrow> gl \<Rightarrow> StreamBuffer \<times> gl" where
  "StreamBuffer_Create sz g =
     (let n = Suc (next_name g)
      in (\<lparr>m_buffer = n, m_size = sz, m_iterator = 0\<rparr>,
          issue (E_CreateBuffer n) (g\<lparr>next_name := n\<rparr>)))"

definition StreamBuffer_Map :: "u32 \<Rightarrow> s32 \<Rightarrow> StreamBuffer \<Rightarrow> u32 \<times> StreamBuffer" where
  "StreamBuffer_Map sz align b =
     (let it = (if align = 0 then m_iterator b else ucast (ROUND_UP (ucast (m_iterator b)) align));
          it' = (if unat it + unat sz \<ge> unat (m_size b) then 0 else it)
      in (it', b\<lparr>m_iterator := it'\<rparr>))"

definition StreamBuffer_Unmap :: "u32 \<Rightarrow> StreamBuffer \<Rightarrow> StreamBuffer" where
  "StreamBuffer_Unmap used_size b = b\<lparr>m_iterator := m_iterator b + used_size\<rparr>"

definition StreamBuffer_delete :: "StreamBuffer option \<Rightarrow> gl \<Rightarrow> gl" where
  "StreamBuffer_delete b g = (case b of None \<Rightarrow> g | Some sb \<Rightarrow> issue (E_DeleteBuffer (m_buffer sb)) g)"

text \<open>
  \<^verbatim>\<open>UploadConstants\<close>. Modelled from the spec: the three constant managers are not among
  the sources; each ``reports unflushed changes'' (its dirty flag) and ``after upload, all
  three sources are marked clean'' (\<^verbatim>\<open>Clear\<close> resets the flag).
\<close>

definition UploadConstants :: "('r, 'u) env \<Rightarrow> 'u state \<Rightarrow> error + 'u state" where
  "UploadConstants env s =
     (if pixel_dirty s \<or> vertex_dirty s \<or> geometry_dirty s
      then (case s_buffer s of
              None \<Rightarrow> Inl NullDereference
            | Some b \<Rightarrow>
                let (second, b1) = StreamBuffer_Map (s_ubo_buffer_size s) (s_ubo_align s) b;
                    g1 = issue (E_Map (s_ubo_buffer_size s) (s_ubo_align s)) (driver s);
                    dst0 = 0;
                    g2 = issue (E_Memcpy PixelBlock dst0 (pixel_buffer_size env)) g1;
                    dst1 = dst0 + ROUND_UP (pixel_buffer_size env) (s_ubo_align s);
                    g3 = issue (E_Memcpy VertexBlock dst1 (vertex_buffer_size env)) g2;
                    dst2 = dst1 + ROUND_UP (vertex_buffer_size env) (s_ubo_align s);
                    g4 = issue (E_Memcpy GeometryBlock dst2 (geometry_buffer_size env)) g3;
                    b2 = StreamBuffer_Unmap (s_ubo_buffer_size s) b1;
                    g5 = issue (E_Unmap (s_ubo_buffer_size s)) g4;
                    g6 = issue (E_BindBufferRange 1 (m_buffer b2) (ucast second) (pixel_buffer_size env)) g5;
                    g7 = issue (E_BindBufferRange 2 (m_buffer b2)
                                  (ucast second + ROUND_UP (pixel_buffer_size env) (s_ubo_align s))
                                  (vertex_buffer_size env)) g6;
                    g8 = issue (E_BindBufferRange 3 (m_buffer b2)
                                  (ucast second + ROUND_UP (pixel_buffer_size env) (s_ubo_align s)
                                     + ROUND_UP (vertex_buffer_size env) (s_ubo_align s))
                                  (geometry_buffer_size env)) g7
                in Inr (s\<lparr>driver := g8, s_buffer := Some b2,
                          pixel_dirty := False, vertex_dirty := False, geometry_dirty := False,
                          bytesUniformStreamed := bytesUniformStreamed s + uint (s_ubo_buffer_size s)\<rparr>))
      else Inr s)"

subsection \<open>The disk cache, start and end\<close>

text \<open>
  \<^verbatim>\<open>ProgramShaderCacheInserter::Read\<close>: the value of a record is the format tag followed
  by the binary, and the driver is given both.
\<close>

definition Read :: "('r, 'u::linorder) env \<Rightarrow> 'u \<Rightarrow> u8 list \<Rightarrow> 'u state \<Rightarrow> 'u state" where
  "Read env key v s =
     (let (pid, g1) = glCreateProgram (driver s);
          entry = \<lparr>shader = new_SHADER\<lparr>glprogid := pid\<rparr>, in_cache = True\<rparr>;
          (success, g2) = glProgramBinary pid v g1
      in if success
         then SetProgramVariables env (shader entry)
                (s\<lparr>driver := g2, pshaders := pc_store key entry (pshaders s)\<rparr>)
         else s\<lparr>driver := glDeleteProgram pid g2\<rparr>)"

text \<open>
  Modelled from the spec: \<^verbatim>\<open>LinearDiskCache::OpenAndRead\<close> is in the common headers,
  which are not among the sources. The file is a ``sequence of variable-length records'',
  and start-up ``replays every record'': the reader is called on each record, in file order.
\<close>

fun replay :: "('r, 'u::linorder) env \<Rightarrow> ('u \<times> u8 list) list \<Rightarrow> 'u state \<Rightarrow> 'u state" where
  "replay env [] s = s"
| "replay env ((k, v) # rs) s = replay env rs (Read env k v s)"

definition OpenAndRead :: "('r, 'u::linorder) env \<Rightarrow> 'u state \<Rightarrow> 'u state" where
  "OpenAndRead env s = replay env (disk_cache s) s"

text \<open>\<^verbatim>\<open>Init\<close>.\<close>

definition Init :: "('r, 'u::linorder) env \<Rightarrow> 'u state \<Rightarrow> 'u state" where
  "Init env s =
     (let g0 = issue E_GetAlignment (driver s);
          align = (case ubo_alignment g0 of None \<Rightarrow> s_ubo_align s | Some a \<Rightarrow> a);
          sz = ROUND_UP (pixel_buffer_size env) align
                 + ROUND_UP (vertex_buffer_size env) align
                 + ROUND_UP (geometry_buffer_size env) align;
          (buf, g1) = StreamBuffer_Create UBO_LENGTH g0;
          s1 = s\<lparr>driver := g1, s_ubo_align := align, s_ubo_buffer_size := ucast sz,
                 s_buffer := Some buf\<rparr>;
          s2 = (if bSupportsGLSLCache s1 \<and> \<not> config_bEnableShaderDebugging env
                then (let s1' = (if num_binary_formats (driver s1) = 0
                                 then s1\<lparr>bSupportsGLSLCache := False\<rparr>
                                 else OpenAndRead env s1)
                      in s1'\<lparr>numPixelShadersAlive := int (length (pshaders s1'))\<rparr>)
                else s1)
      in s2\<lparr>CurrentProgram := 0, last_entry := None\<rparr>)"

text \<open>
  The first loop of \<^verbatim>\<open>Shutdown\<close>: the records appended to the disk cache, one for each
  entry not yet in it whose program is linked, is not flagged for deletion and has a
  binary that the driver gives without error. A query on a name that is no program raises
  an error, and the entry is skipped.
\<close>

fun shutdown_records :: "gl \<Rightarrow> ('u \<times> PCacheEntry) list \<Rightarrow> ('u \<times> u8 list) list" where
  "shutdown_records g [] = []"
| "shutdown_records g ((k, e) # xs) =
     (if in_cache e then shutdown_records g xs
      else (case programs g (glprogid (shader e)) of
              None \<Rightarrow> shutdown_records g xs
            | Some p \<Rightarrow>
                if \<not> link_status p \<or> delete_status p \<or> length (blob p) \<le> 4
                then shutdown_records g xs
                else if \<not> get_binary_ok g (glprogid (shader e)) then shutdown_records g xs
                else (k, blob p) # shutdown_records g xs))"

text \<open>
  Modelled from the spec: \<^verbatim>\<open>PCacheEntry::Destroy\<close> is in ProgramShaderCache.h, which is
  not among the sources. Teardown ``destroys each GPU program object'': the program of
  the entry is deleted.
\<close>

definition Destroy :: "PCacheEntry \<Rightarrow> gl \<Rightarrow> gl" where
  "Destroy e g = glDeleteProgram (glprogid (shader e)) g"

fun destroy_all :: "('u \<times> PCacheEntry) list \<Rightarrow> gl \<Rightarrow> gl" where
  "destroy_all [] g = g"
| "destroy_all ((k, e) # xs) g = destroy_all xs (Destroy e g)"

text \<open>\<^verbatim>\<open>Shutdown\<close>.\<close>

definition Shutdown :: "('r, 'u) env \<Rightarrow> 'u state \<Rightarrow> 'u state" where
  "Shutdown env s =
     (let s1 = (if bSupportsGLSLCache s \<and> \<not> config_bEnableShaderDebugging env
                then s\<lparr>disk_cache := disk_cache s @ shutdown_records (driver s) (pshaders s)\<rparr>
                else s);
          g1 = glUseProgram 0 (driver s1);
          g2 = destroy_all (pshaders s1) g1;
          g3 = StreamBuffer_delete (s_buffer s1) g2
      in s1\<lparr>driver := g3, pshaders := [], s_buffer := None\<rparr>)"

subsection \<open>The vocabulary of the properties\<close>

text \<open>The calls made between two states of the driver, the later one reached from the earlier.\<close>

definition issued :: "gl \<Rightarrow> gl \<Rightarrow> event list" where
  "issued g g' = drop (length (calls g)) (calls g')"

text \<open>The calls of the compilation pipeline: creating and compiling a stage, creating and
  linking a program.\<close>

fun is_compile_call :: "event \<Rightarrow> bool" where
  "is_compile_call (E_CreateShader ty n) = True"
| "is_compile_call (E_CompileShader n src) = True"
| "is_compile_call (E_CreateProgram n) = True"
| "is_compile_call (E_LinkProgram n) = True"
| "is_compile_call e = False"

definition compile_calls :: "gl \<Rightarrow> event list" where
  "compile_calls g = filter is_compile_call (calls g)"

fun is_link_call :: "event \<Rightarrow> bool" where
  "is_link_call (E_CreateProgram n) = True"
| "is_link_call (E_LinkProgram n) = True"
| "is_link_call e = False"

definition link_calls :: "gl \<Rightarrow> event list" where
  "link_calls g = filter is_link_call (calls g)"

text \<open>A name is a successfully compiled program when the driver holds a linked program under it.\<close>

definition linked_program :: "gl \<Rightarrow> GLuint \<Rightarrow> bool" where
  "linked_program g p = (case programs g p of None \<Rightarrow> False | Some pr \<Rightarrow> link_status pr)"

text \<open>At least one of the stages of a compilation request fails to compile.\<close>

definition stage_fails :: "gl \<Rightarrow> string list \<Rightarrow> string \<Rightarrow> string \<Rightarrow> string option \<Rightarrow> bool" where
  "stage_fails g macros vcode pcode gcode =
     (\<not> compile_ok g GL_VERTEX_SHADER (concat macros @ vcode)
      \<or> \<not> compile_ok g GL_FRAGMENT_SHADER (concat macros @ pcode)
      \<or> (case gcode of None \<Rightarrow> False | Some c \<Rightarrow> \<not> compile_ok g GL_GEOMETRY_SHADER (concat macros @ c)))"

text \<open>
  The compilation that \<^verbatim>\<open>SetShader\<close> starts for a pipeline state fails: a stage generated
  for it does not compile, or the stages do not link.
\<close>

definition compilation_fails :: "('r, 'u) env \<Rightarrow> 'r \<Rightarrow> gl \<Rightarrow> bool" where
  "compilation_fails env r g =
     (let vcode = VertexShaderCode env r;
          pcode = PixelShaderCode env r;
          gcode = (if bSupportsGeometryShaders env \<and> \<not> IsPassthrough env (ShaderUid env r)
                   then Some (GeometryShaderCode env r) else None)
      in stage_fails g [] vcode pcode gcode \<or> \<not> link_ok g vcode pcode gcode)"

text \<open>The three \<^verbatim>\<open>glDeleteShader\<close> calls of \<^verbatim>\<open>CompileShader\<close>, in their order.\<close>

definition del3 :: "GLuint \<Rightarrow> GLuint \<Rightarrow> GLuint \<Rightarrow> gl \<Rightarrow> gl" where
  "del3 v p g x = glDeleteShader g (glDeleteShader p (glDeleteShader v x))"


text \<open>
  The driver's tables are consistent with its counter: zero and the names not yet handed
  out are no programs, and the program in use is zero or a name handed out.
\<close>

definition gl_wf :: "gl \<Rightarrow> bool" where
  "gl_wf g = (programs g 0 = None \<and> used_program g \<le> next_name g
              \<and> (\<forall>p. next_name g < p \<longrightarrow> programs g p = None))"

text \<open>\<^verbatim>\<open>last_entry\<close> is null or points to the node of \<^verbatim>\<open>last_uid\<close>, which the map has.\<close>

definition ptr_ok :: "'u state \<Rightarrow> bool" where
  "ptr_ok s = (case last_entry s of
                 None \<Rightarrow> True
               | Some k \<Rightarrow> k = last_uid s \<and> map_of (pshaders s) k \<noteq> None)"

text \<open>\<^verbatim>\<open>s_ubo_buffer_size\<close> is the size \<^verbatim>\<open>Init\<close> computes from the alignment it stored.\<close>

definition ubo_sized :: "('r, 'u) env \<Rightarrow> 'u state \<Rightarrow> bool" where
  "ubo_sized env s =
     (s_ubo_buffer_size s =
        ucast (ROUND_UP (pixel_buffer_size env) (s_ubo_align s)
               + ROUND_UP (vertex_buffer_size env) (s_ubo_align s)
               + ROUND_UP (geometry_buffer_size env) (s_ubo_align s)))"

subsection \<open>A concrete driver, configuration and start state\<close>

text \<open>
  A driver that rejects the stage source \<open>''bad''\<close>, fails to link with the pixel source
  \<open>''nolink''\<close>, accepts every non-empty binary and reports an alignment of 256; a
  configuration whose pipeline states are numbers, each its own uid, the state 7 with a
  vertex source that does not compile and the state 8 with a pixel source that does not
  link; and the state of a process that has just started.
\<close>

definition driver0 :: gl where
  "driver0 =
     \<lparr>next_name = 0, shaders = {}, programs = Map.empty, used_program = 0, calls = [],
      compile_ok = (\<lambda>ty src. src \<noteq> ''bad''),
      link_ok = (\<lambda>v p g. p \<noteq> ''nolink''),
      link_blob = (\<lambda>v p g. [0, 0, 0, 0, 1]),
      binary_ok = (\<lambda>v. v \<noteq> []),
      get_binary_ok = (\<lambda>p. True),
      ubo_alignment = Some 256,
      num_binary_formats = 1\<rparr>"

definition state0 :: "nat state" where
  "state0 =
     \<lparr>driver = driver0, CurrentProgram = 0, numShaderChanges = 0, numPixelShadersCreated = 0,
      numPixelShadersAlive = 0, bytesUniformStreamed = 0, pshaders = [], last_entry = None,
      last_uid = 0, s_ubo_align = 0, s_ubo_buffer_size = 0, s_buffer = None,
      bSupportsGLSLCache = True, pixel_dirty = True, vertex_dirty = True, geometry_dirty = True,
      disk_cache = []\<rparr>"

definition env0 :: "(nat, nat) env" where
  "env0 =
     \<lparr>ShaderUid = (\<lambda>r. r),
      VertexShaderCode = (\<lambda>r. if r = 7 then ''bad'' else ''vs''),
      PixelShaderCode = (\<lambda>r. if r = 8 then ''nolink'' else ''ps''),
      GeometryShaderCode = (\<lambda>r. ''gs''),
      IsPassthrough = (\<lambda>u. u < 5),
      bSupportsGeometryShaders = True, bSupportsBindingLayout = False,
      active_bEnableShaderDebugging = False, config_bEnableShaderDebugging = False,
      pixel_buffer_size = 2096, vertex_buffer_size = 3840, geometry_buffer_size = 48\<rparr>"

section \<open>Properties\<close>

lemma map_of_pc_store: "map_of (pc_store k e xs) = (map_of xs)(k \<mapsto> e)"
  by (induction xs) (auto simp: fun_upd_twist)

text \<open>The start state after \<^verbatim>\<open>Init\<close>, evaluated.\<close>

lemma Init_state0:
  "Init env0 state0 =
     state0\<lparr>driver := driver0\<lparr>next_name := 1, calls := [E_GetAlignment, E_CreateBuffer 1]\<rparr>,
            s_ubo_align := 256, s_ubo_buffer_size := 6400,
            s_buffer := Some \<lparr>m_buffer = 1, m_size = 33554432, m_iterator = 0\<rparr>\<rparr>"
  by (simp add: Init_def Let_def state0_def StreamBuffer_Create_def issue_def env0_def
      driver0_def OpenAndRead_def ROUND_UP_def UBO_LENGTH_def)

lemma Init_state0_fields:
  "last_entry (Init env0 state0) = None"
  "pshaders (Init env0 state0) = []"
  "driver (Init env0 state0) = driver0\<lparr>next_name := 1, calls := [E_GetAlignment, E_CreateBuffer 1]\<rparr>"
  by (simp_all add: Init_state0) (simp_all add: state0_def)

subsection \<open>Lemmas about the steps\<close>

lemma Bind_keeps: "pshaders (Bind sh s) = pshaders s" "last_entry (Bind sh s) = last_entry s"
  "last_uid (Bind sh s) = last_uid s"
  by (simp_all add: Bind_def)

lemma CompileShader_keeps:
  assumes "CompileShader env sh vcode pcode gcode macros s = (ok, sh', s')"
  shows "pshaders s' = pshaders s \<and> last_entry s' = last_entry s \<and> last_uid s' = last_uid s"
  using assms
  by (auto simp: CompileShader_def SetProgramVariables_def Bind_keeps Let_def
      split: prod.splits if_splits)

lemma SetShader_entries:
  assumes "SetShader env r s = Inr (res, s')" and "map_of (pshaders s) k = Some e"
  shows "map_of (pshaders s') k = Some e"
  using assms
  by (auto simp: SetShader_def Let_def Bind_keeps map_of_pc_store
      split: option.splits if_splits sum.splits prod.splits dest!: CompileShader_keeps)

lemma SetShader_ptr_ok:
  assumes "SetShader env r s = Inr (res, s')" and "ptr_ok s"
  shows "ptr_ok s'"
  using assms
  by (auto simp: SetShader_def Let_def Bind_keeps map_of_pc_store ptr_ok_def
      split: option.splits if_splits sum.splits prod.splits dest!: CompileShader_keeps)

lemma SetShader_sets_last:
  assumes "SetShader env r s = Inr (res, s')" and "last_entry s = None"
  shows "last_entry s' = Some (ShaderUid env r) \<and> ptr_ok s'"
  using assms
  by (auto simp: SetShader_def Let_def Bind_keeps map_of_pc_store ptr_ok_def
      split: option.splits if_splits sum.splits prod.splits dest!: CompileShader_keeps)

lemma SetShaders_entries:
  "SetShaders env rs s = Inr s' \<Longrightarrow> map_of (pshaders s) k = Some e \<Longrightarrow> map_of (pshaders s') k = Some e"
  by (induction rs arbitrary: s) (auto split: sum.splits dest: SetShader_entries)

lemma SetShaders_ptr_ok:
  "SetShaders env rs s = Inr s' \<Longrightarrow> ptr_ok s \<Longrightarrow> ptr_ok s'"
  by (induction rs arbitrary: s) (auto split: sum.splits dest: SetShader_ptr_ok)

lemma ptr_ok_last_entry:
  "ptr_ok s \<Longrightarrow> last_entry s = Some k \<Longrightarrow> \<exists>e. GetShaderProgram s = Inr e"
  by (auto simp: ptr_ok_def GetShaderProgram_def split: option.splits)

lemma last_entry_same: "last_entry s = v \<Longrightarrow> s\<lparr>last_entry := v\<rparr> = s"
  by (cases s) simp

lemma SetShader_hit:
  assumes "map_of (pshaders s) (ShaderUid env r) = Some e" and "ptr_ok s"
  shows "SetShader env r s =
           Inr (Some (ShaderUid env r),
                Bind (shader e) (s\<lparr>last_uid := ShaderUid env r, last_entry := Some (ShaderUid env r)\<rparr>))"
  using assms
  by (auto simp: SetShader_def Let_def ptr_ok_def last_entry_same split: option.splits)


lemma SetShader_last_some:
  assumes "SetShader env r s = Inr (res, s')"
  shows "last_entry s' \<noteq> None"
  using assms
  apply (cases "last_entry s")
   apply (auto simp: SetShader_def Let_def Bind_keeps
      split: option.splits if_splits sum.splits prod.splits dest!: CompileShader_keeps)
  apply (metis option.distinct(1))+
  done

lemma SetShaders_last_some:
  "SetShaders env rs s = Inr s' \<Longrightarrow> last_entry s \<noteq> None \<Longrightarrow> last_entry s' \<noteq> None"
  by (induction rs arbitrary: s) (auto split: sum.splits dest: SetShader_last_some)

text \<open>The driver: what the steps of a compilation keep.\<close>


lemma CSS_facts:
  assumes "CompileSingleShader ty code macros g = (n, g')"
  shows "programs g' = programs g \<and> used_program g' = used_program g
         \<and> next_name g' = Suc (next_name g)
         \<and> compile_ok g' = compile_ok g \<and> link_ok g' = link_ok g
         \<and> (n = 0 \<and> \<not> compile_ok g ty (concat macros @ code)
            \<or> n = Suc (next_name g) \<and> compile_ok g ty (concat macros @ code))"
  using assms
  by (auto simp: CompileSingleShader_def glCreateShader_def glCompileShader_def
      glDeleteShader_def issue_def Let_def split: if_splits)

lemma Bind_wf: "gl_wf (driver s) \<Longrightarrow> gl_wf (driver (Bind sh s))"
  by (auto simp: Bind_def glUseProgram_def issue_def gl_wf_def Let_def not_less split: option.splits)


lemma Bind_compile_calls: "compile_calls (driver (Bind sh s)) = compile_calls (driver s)"
  by (simp add: Bind_def glUseProgram_def issue_def compile_calls_def Let_def)

lemma Bind_linked: "\<not> linked_program (driver s) p \<Longrightarrow> \<not> linked_program (driver (Bind sh s)) p"
  by (auto simp: Bind_def glUseProgram_def issue_def linked_program_def Let_def split: option.splits)



lemma stages_facts:
  assumes "CompileSingleShader GL_VERTEX_SHADER vcode macros g = (vsid, g1)"
    and "CompileSingleShader GL_FRAGMENT_SHADER pcode macros g1 = (psid, g2)"
    and "(case gcode of None \<Rightarrow> (0, g2) | Some c \<Rightarrow> CompileSingleShader GL_GEOMETRY_SHADER c macros g2) = (gsid, g3)"
  shows "programs g3 = programs g \<and> used_program g3 = used_program g
         \<and> next_name g \<le> next_name g3 \<and> link_ok g3 = link_ok g
         \<and> ((vsid = 0 \<or> psid = 0 \<or> (gcode \<noteq> None \<and> gsid = 0)) = stage_fails g macros vcode pcode gcode)"
proof -
  note a = CSS_facts [OF assms(1)] and b = CSS_facts [OF assms(2)]
  show ?thesis
  proof (cases gcode)
    case None
    with assms(3) a b show ?thesis by (auto simp: stage_fails_def)
  next
    case (Some c)
    with assms(3) have "CompileSingleShader GL_GEOMETRY_SHADER c macros g2 = (gsid, g3)" by simp
    from CSS_facts [OF this] a b Some show ?thesis by (auto simp: stage_fails_def)
  qed
qed

lemma CSS_blob:
  "CompileSingleShader ty code macros g = (n, g') \<Longrightarrow> link_blob g' = link_blob g"
  by (auto simp: CompileSingleShader_def glCreateShader_def glCompileShader_def
      glDeleteShader_def issue_def Let_def split: if_splits)

lemma stages_blob:
  assumes "CompileSingleShader GL_VERTEX_SHADER vcode macros g = (vsid, g1)"
    and "CompileSingleShader GL_FRAGMENT_SHADER pcode macros g1 = (psid, g2)"
    and "(case gcode of None \<Rightarrow> (0, g2) | Some c \<Rightarrow> CompileSingleShader GL_GEOMETRY_SHADER c macros g2) = (gsid, g3)"
  shows "link_blob g3 = link_blob g"
  using assms by (cases gcode) (auto dest!: CSS_blob)


lemma del3_facts:
  "programs (del3 a b c g) = programs g" "used_program (del3 a b c g) = used_program g"
  "next_name (del3 a b c g) = next_name g"
  by (simp_all add: del3_def glDeleteShader_def issue_def)


lemma CompileShader_cases:
  assumes "CompileShader env sh vcode pcode gcode macros s = (ok, sh', s')"
  obtains
    (stage) g3 a b c where "stage_fails (driver s) macros vcode pcode gcode" "\<not> ok" "sh' = sh"
      "s' = s\<lparr>driver := del3 a b c g3\<rparr>"
      "programs g3 = programs (driver s)" "used_program g3 = used_program (driver s)"
      "next_name (driver s) \<le> next_name g3"
  | (link) P g5 a b c where "\<not> stage_fails (driver s) macros vcode pcode gcode"
      "\<not> link_ok (driver s) vcode pcode gcode" "\<not> ok"
      "sh' = sh\<lparr>glprogid := P\<rparr>"
      "s' = s\<lparr>driver := glDeleteProgram P (del3 a b c g5)\<rparr>"
      "programs g5 = (programs (driver s))(P \<mapsto> \<lparr>link_status = False, delete_status = False, blob = []\<rparr>)"
      "used_program g5 = used_program (driver s)"
      "next_name (driver s) < P" "next_name g5 = P"
  | (linked) P g5 a b c where "\<not> stage_fails (driver s) macros vcode pcode gcode"
      "link_ok (driver s) vcode pcode gcode" "ok"
      "sh' = sh\<lparr>glprogid := P\<rparr>"
      "s' = SetProgramVariables env (sh\<lparr>glprogid := P\<rparr>) (s\<lparr>driver := del3 a b c g5\<rparr>)"
      "programs g5 = (programs (driver s))(P \<mapsto> \<lparr>link_status = True, delete_status = False,
           blob = link_blob (driver s) vcode pcode gcode\<rparr>)"
      "used_program g5 = used_program (driver s)"
      "next_name (driver s) < P" "next_name g5 = P"
proof -
  obtain vsid g1 where 1: "CompileSingleShader GL_VERTEX_SHADER vcode macros (driver s) = (vsid, g1)"
    by (cases "CompileSingleShader GL_VERTEX_SHADER vcode macros (driver s)")
  obtain psid g2 where 2: "CompileSingleShader GL_FRAGMENT_SHADER pcode macros g1 = (psid, g2)"
    by (cases "CompileSingleShader GL_FRAGMENT_SHADER pcode macros g1")
  obtain gsid g3 where 3: "(case gcode of None \<Rightarrow> (0, g2)
      | Some c \<Rightarrow> CompileSingleShader GL_GEOMETRY_SHADER c macros g2) = (gsid, g3)"
    by (cases "(case gcode of None \<Rightarrow> (0, g2)
      | Some c \<Rightarrow> CompileSingleShader GL_GEOMETRY_SHADER c macros g2)")
  note f = stages_facts [OF 1 2 3]
  define P where "P = Suc (next_name g3)"
  obtain g4 where cp: "glCreateProgram g3 = (P, g4)"
    by (simp add: glCreateProgram_def Let_def P_def)
  have "link_ok g4 = link_ok (driver s)"
    using cp f by (auto simp: glCreateProgram_def issue_def Let_def)
  then obtain g5 where lk: "glLinkProgram P vcode pcode gcode g4 = (link_ok (driver s) vcode pcode gcode, g5)"
    by (simp add: glLinkProgram_def Let_def)
  have g5: "programs g5 = (programs (driver s))(P \<mapsto> \<lparr>link_status = link_ok (driver s) vcode pcode gcode,
                delete_status = False,
                blob = (if link_ok (driver s) vcode pcode gcode then link_blob g3 vcode pcode gcode else [])\<rparr>)"
       "used_program g5 = used_program (driver s)" "next_name g5 = P" "next_name (driver s) < P"
    using cp lk f by (auto simp: glLinkProgram_def glCreateProgram_def issue_def Let_def P_def)
  have r: "(if vsid = 0 \<or> psid = 0 \<or> (gcode \<noteq> None \<and> gsid = 0)
            then (False, sh, s\<lparr>driver := del3 vsid psid gsid g3\<rparr>)
            else if \<not> link_ok (driver s) vcode pcode gcode
              then (False, sh\<lparr>glprogid := P\<rparr>, s\<lparr>driver := glDeleteProgram P (del3 vsid psid gsid g5)\<rparr>)
              else (True, sh\<lparr>glprogid := P\<rparr>,
                    SetProgramVariables env (sh\<lparr>glprogid := P\<rparr>) (s\<lparr>driver := del3 vsid psid gsid g5\<rparr>)))
           = (ok, sh', s')"
    using assms by (simp only: CompileShader_def Let_def 1 2 3 prod.case cp lk del3_def)
  show thesis
  proof (cases "stage_fails (driver s) macros vcode pcode gcode")
    case True
    with f have "vsid = 0 \<or> psid = 0 \<or> (gcode \<noteq> None \<and> gsid = 0)" by simp
    with r have "\<not> ok" "sh' = sh" "s' = s\<lparr>driver := del3 vsid psid gsid g3\<rparr>" by simp_all
    with True f show thesis by (intro stage [of vsid psid gsid g3]) simp_all
  next
    case False
    with f have nf: "\<not> (vsid = 0 \<or> psid = 0 \<or> (gcode \<noteq> None \<and> gsid = 0))" by simp
    show thesis
    proof (cases "link_ok (driver s) vcode pcode gcode")
      case True
      with r nf have "ok" "sh' = sh\<lparr>glprogid := P\<rparr>"
        "s' = SetProgramVariables env (sh\<lparr>glprogid := P\<rparr>) (s\<lparr>driver := del3 vsid psid gsid g5\<rparr>)"
        by auto
      moreover have "link_blob g3 = link_blob (driver s)"
        by (rule stages_blob [OF 1 2 3])
      ultimately show thesis using True False g5
        by (intro linked [of P vsid psid gsid g5]) simp_all
    next
      case nl: False
      with r nf have "\<not> ok" "sh' = sh\<lparr>glprogid := P\<rparr>"
        "s' = s\<lparr>driver := glDeleteProgram P (del3 vsid psid gsid g5)\<rparr>"
        by auto
      with nl False g5 show thesis
        by (intro link [of P vsid psid gsid g5]) simp_all
    qed
  qed
qed


lemma delprog_facts:
  "used_program (glDeleteProgram p g) = used_program g" "next_name (glDeleteProgram p g) = next_name g"
  "programs (glDeleteProgram p g) q = None \<longleftrightarrow> programs g q = None \<or> (q = p \<and> p \<noteq> used_program g)"
  by (auto simp: glDeleteProgram_def issue_def split: option.splits)

lemma CompileShader_wf:
  assumes "CompileShader env sh vcode pcode gcode macros s = (ok, sh', s')" and "gl_wf (driver s)"
  shows "gl_wf (driver s')"
  using assms(1)
proof (cases rule: CompileShader_cases)
  case (stage g3 a b c)
  with assms(2) show ?thesis by (auto simp: gl_wf_def del3_facts)
next
  case (link P g5 a b c)
  with assms(2) show ?thesis by (auto simp: gl_wf_def del3_facts delprog_facts)
next
  case (linked P g5 a b c)
  with assms(2) have "gl_wf (driver (s\<lparr>driver := del3 a b c g5\<rparr>))"
    by (auto simp: gl_wf_def del3_facts)
  with linked show ?thesis by (simp add: SetProgramVariables_def Bind_wf)
qed


lemma CompileShader_result:
  assumes "CompileShader env sh vcode pcode gcode macros s = (ok, sh', s')"
  shows "ok = (\<not> stage_fails (driver s) macros vcode pcode gcode \<and> link_ok (driver s) vcode pcode gcode)"
  using assms by (cases rule: CompileShader_cases) auto



lemma last_uid_entry_same: "last_entry s = Some k \<Longrightarrow> last_uid s = k \<Longrightarrow> s\<lparr>last_uid := k, last_entry := Some k\<rparr> = s"
  by (cases s) simp

lemma SetShader_cases:
  assumes "SetShader env r s = Inr (res, s')" and "ptr_ok s"
  obtains
    (hit) e where "map_of (pshaders s) (ShaderUid env r) = Some e" "res = Some (ShaderUid env r)"
      "s' = Bind (shader e) (s\<lparr>last_uid := ShaderUid env r, last_entry := Some (ShaderUid env r)\<rparr>)"
  | (miss) sh0 vcode pcode gcode s2 ok sh s3 s4 where
      "map_of (pshaders s) (ShaderUid env r) = None" "glprogid sh0 = 0"
      "driver s2 = driver s"
      "pshaders s2 = pc_store (ShaderUid env r) \<lparr>shader = sh0, in_cache = False\<rparr> (pshaders s)"
      "CompileShader env sh0 vcode pcode gcode [] s2 = (ok, sh, s3)"
      "ok = (\<not> compilation_fails env r (driver s))"
      "res = (if ok then Some (ShaderUid env r) else None)"
      "s4 = s3\<lparr>pshaders := pc_store (ShaderUid env r) \<lparr>shader = sh, in_cache = False\<rparr> (pshaders s3)\<rparr>"
      "s' = (if ok then Bind sh (s4\<lparr>numPixelShadersCreated := numPixelShadersCreated s4 + 1,
                                    numPixelShadersAlive := int (length (pshaders s4))\<rparr>)
             else s4)"
      "last_entry s3 = Some (ShaderUid env r)" "last_uid s3 = ShaderUid env r"
proof (cases "map_of (pshaders s) (ShaderUid env r)")
  case (Some e)
  from SetShader_hit [OF Some assms(2)] assms(1) Some show thesis
    by (intro hit [of e]) auto
next
  case None
  with assms(2) have nofast: "\<not> (last_entry s \<noteq> None \<and> ShaderUid env r = last_uid s)"
    by (auto simp: ptr_ok_def split: option.splits)
  define vcode where "vcode = VertexShaderCode env r"
  define pcode where "pcode = PixelShaderCode env r"
  define gcode where "gcode = (if bSupportsGeometryShaders env \<and> \<not> IsPassthrough env (ShaderUid env r)
                               then Some (GeometryShaderCode env r) else None)"
  define sh0 where "sh0 = (if active_bEnableShaderDebugging env
       then new_SHADER\<lparr>strvprog := vcode, strpprog := pcode,
                       strgprog := (case gcode of None \<Rightarrow> [] | Some c \<Rightarrow> c)\<rparr>
       else new_SHADER)"
  have z: "glprogid sh0 = 0" by (simp add: sh0_def new_SHADER_def)
  obtain ok sh s3 where c: "CompileShader env sh0 vcode pcode gcode []
            (s\<lparr>last_uid := ShaderUid env r,
               pshaders := pc_store (ShaderUid env r) \<lparr>shader = sh0, in_cache = False\<rparr> (pshaders s),
               last_entry := Some (ShaderUid env r)\<rparr>) = (ok, sh, s3)"
    by (metis prod_cases3)
  have "res = (if ok then Some (ShaderUid env r) else None)
      \<and> s' = (if ok then Bind sh (s3\<lparr>pshaders := pc_store (ShaderUid env r) \<lparr>shader = sh, in_cache = False\<rparr> (pshaders s3),
                                     numPixelShadersCreated := numPixelShadersCreated s3 + 1,
                                     numPixelShadersAlive := int (length (pc_store (ShaderUid env r) \<lparr>shader = sh, in_cache = False\<rparr> (pshaders s3)))\<rparr>)
               else s3\<lparr>pshaders := pc_store (ShaderUid env r) \<lparr>shader = sh, in_cache = False\<rparr> (pshaders s3)\<rparr>)"
    using assms(1) None nofast c unfolding SetShader_def vcode_def pcode_def gcode_def sh0_def
    by (auto simp: Let_def split: if_splits option.splits)
  then have rs: "res = (if ok then Some (ShaderUid env r) else None)"
    and s': "s' = (if ok then Bind sh (s3\<lparr>pshaders := pc_store (ShaderUid env r) \<lparr>shader = sh, in_cache = False\<rparr> (pshaders s3),
                                     numPixelShadersCreated := numPixelShadersCreated s3 + 1,
                                     numPixelShadersAlive := int (length (pc_store (ShaderUid env r) \<lparr>shader = sh, in_cache = False\<rparr> (pshaders s3)))\<rparr>)
               else s3\<lparr>pshaders := pc_store (ShaderUid env r) \<lparr>shader = sh, in_cache = False\<rparr> (pshaders s3)\<rparr>)"
    by simp_all
  note k = CompileShader_keeps [OF c]
  have okc: "ok = (\<not> compilation_fails env r (driver s))"
    using CompileShader_result [OF c]
    by (simp add: compilation_fails_def vcode_def pcode_def gcode_def Let_def)
  show thesis
    using c z okc k None rs s'
    by (intro miss [of sh0 _ vcode pcode gcode ok sh s3]) auto
qed

text \<open>\<^verbatim>\<open>SetShader\<close>: what a call keeps, and that it returns.\<close>

lemma SetShader_wf:
  assumes "SetShader env r s = Inr (res, s')" and "ptr_ok s" and "gl_wf (driver s)"
  shows "gl_wf (driver s')"
  using assms(1,2)
proof (cases rule: SetShader_cases)
  case (hit e)
  with assms(3) show ?thesis by (simp add: Bind_wf)
next
  case (miss sh0 vcode pcode gcode s2 ok sh s3 s4)
  from CompileShader_wf [OF miss(5)] miss(3) assms(3) have "gl_wf (driver s3)" by simp
  with miss(8,9) show ?thesis by (simp add: Bind_wf)
qed


lemma SetShaders_inv:
  "SetShaders env rs s = Inr s' \<Longrightarrow> ptr_ok s \<Longrightarrow> gl_wf (driver s) \<Longrightarrow> gl_wf (driver s')"
  by (induction rs arbitrary: s) (auto split: sum.splits dest: SetShader_ptr_ok SetShader_wf)


lemma SetShader_Some_entry:
  assumes "SetShader env r s = Inr (Some k, s')" and "ptr_ok s"
  shows "k = ShaderUid env r \<and> (\<exists>e. map_of (pshaders s') k = Some e)"
  using assms(1,2)
proof (cases rule: SetShader_cases)
  case (hit e)
  then show ?thesis by (simp add: Bind_keeps)
next
  case (miss sh0 vcode pcode gcode s2 ok sh s3 s4)
  then show ?thesis by (auto simp: Bind_keeps map_of_pc_store split: if_splits)
qed



lemma SetShader_total:
  assumes "ptr_ok s" and "\<not> active_bEnableShaderDebugging env"
  shows "\<exists>res s'. SetShader env r s = Inr (res, s')"
proof (cases "map_of (pshaders s) (ShaderUid env r)")
  case (Some e)
  from SetShader_hit [OF Some assms(1)] show ?thesis by blast
next
  case None
  with assms(1) have nofast: "\<not> (last_entry s \<noteq> None \<and> ShaderUid env r = last_uid s)"
    by (auto simp: ptr_ok_def split: option.splits)
  with None assms(2) show ?thesis
    unfolding SetShader_def by (auto simp: Let_def split: prod.splits)
qed

lemma SetShaders_total:
  "ptr_ok s \<Longrightarrow> \<not> active_bEnableShaderDebugging env \<Longrightarrow> \<exists>s'. SetShaders env rs s = Inr s'"
proof (induction rs arbitrary: s)
  case Nil
  then show ?case by simp
next
  case (Cons r rs)
  from SetShader_total [OF Cons.prems] obtain res s1 where 1: "SetShader env r s = Inr (res, s1)"
    by blast
  from SetShader_ptr_ok [OF 1 Cons.prems(1)] Cons.IH Cons.prems(2) obtain s' where
    "SetShaders env rs s1 = Inr s'" by blast
  with 1 show ?case by simp
qed

lemma SetShader_miss_result:
  assumes "ptr_ok s" and "\<not> active_bEnableShaderDebugging env"
    and "map_of (pshaders s) (ShaderUid env r) = None"
  shows "\<exists>s'. SetShader env r s =
           Inr (if compilation_fails env r (driver s) then None else Some (ShaderUid env r), s')"
proof -
  from SetShader_total [OF assms(1,2)] obtain res s' where 1: "SetShader env r s = Inr (res, s')"
    by blast
  from 1 assms(1) have "res = (if compilation_fails env r (driver s) then None else Some (ShaderUid env r))"
    using assms(3) by (cases rule: SetShader_cases) auto
  with 1 show ?thesis by blast
qed

text \<open>Reading the disk cache.\<close>

lemma Read_cases:
  obtains (ok) "binary_ok (driver s) v"
      "pshaders (Read env key v s) = pc_store key \<lparr>shader = new_SHADER\<lparr>glprogid := Suc (next_name (driver s))\<rparr>, in_cache = True\<rparr> (pshaders s)"
  | (rejected) "\<not> binary_ok (driver s) v" "pshaders (Read env key v s) = pshaders s"
  by (cases "binary_ok (driver s) v")
    (auto simp: Read_def glCreateProgram_def glProgramBinary_def glDeleteProgram_def issue_def Let_def
      SetProgramVariables_def Bind_keeps)

lemma Read_keeps:
  "binary_ok (driver (Read env key v s)) = binary_ok (driver s)"
  "s_buffer (Read env key v s) = s_buffer s"
  "s_ubo_align (Read env key v s) = s_ubo_align s"
  "s_ubo_buffer_size (Read env key v s) = s_ubo_buffer_size s"
  by (auto simp: Read_def glCreateProgram_def glProgramBinary_def glDeleteProgram_def issue_def Let_def
      SetProgramVariables_def Bind_def glUseProgram_def split: option.splits)

lemma replay_keeps:
  "binary_ok (driver (replay env rs s)) = binary_ok (driver s)
   \<and> s_buffer (replay env rs s) = s_buffer s
   \<and> s_ubo_align (replay env rs s) = s_ubo_align s
   \<and> s_ubo_buffer_size (replay env rs s) = s_ubo_buffer_size s"
  by (induction rs arbitrary: s) (auto simp: Read_keeps)

lemma replay_append: "replay env (rs @ rs') s = replay env rs' (replay env rs s)"
  by (induction rs arbitrary: s) auto

lemma replay_rejected:
  assumes "\<forall>(k', v') \<in> set rs. k' = k \<longrightarrow> \<not> binary_ok (driver s) v'"
  shows "map_of (pshaders (replay env rs s)) k = map_of (pshaders s) k"
  using assms
proof (induction rs arbitrary: s)
  case Nil
  then show ?case by simp
next
  case (Cons x rs)
  obtain k' v' where x: "x = (k', v')" by (cases x)
  have 1: "map_of (pshaders (Read env k' v' s)) k = map_of (pshaders s) k"
    using Cons.prems x by (cases rule: Read_cases [of s v' env k']) (auto simp: map_of_pc_store)
  have "\<forall>(k', v') \<in> set rs. k' = k \<longrightarrow> \<not> binary_ok (driver (Read env k' v' s)) v'" for k' v'
    using Cons.prems by (auto simp: Read_keeps)
  with Cons.IH [of "Read env k' v' s"] 1 x show ?case by (simp add: Read_keeps)
qed

text \<open>Destroying the entries.\<close>

lemma destroy_all_calls:
  "calls (destroy_all xs g) = calls g @ map (\<lambda>(k, e). E_DeleteProgram (glprogid (shader e))) xs"
  by (induction xs arbitrary: g)
    (auto simp: Destroy_def glDeleteProgram_def issue_def split: option.splits)

lemma destroy_all_used: "used_program (destroy_all xs g) = used_program g"
  by (induction xs arbitrary: g)
    (auto simp: Destroy_def delprog_facts)

lemma destroy_all_None: "programs g p = None \<Longrightarrow> programs (destroy_all xs g) p = None"
  by (induction xs arbitrary: g)
    (auto simp: Destroy_def delprog_facts)

lemma destroy_all_destroys:
  assumes "used_program g = 0" and "programs g 0 = None" and "(k, e) \<in> set xs"
  shows "programs (destroy_all xs g) (glprogid (shader e)) = None"
  using assms
proof (induction xs arbitrary: g)
  case Nil
  then show ?case by simp
next
  case (Cons x xs)
  obtain k' e' where x: "x = (k', e')" by (cases x)
  let ?g = "Destroy e' g"
  have u: "used_program ?g = 0" and z: "programs ?g 0 = None"
    using Cons.prems by (simp_all add: Destroy_def delprog_facts)
  show ?case
  proof (cases "(k, e) = (k', e')")
    case True
    have "programs ?g (glprogid (shader e)) = None"
      using True Cons.prems by (cases "glprogid (shader e) = 0") (auto simp: Destroy_def delprog_facts)
    then show ?thesis using x by (simp add: destroy_all_None)
  next
    case False
    with Cons.prems x have "(k, e) \<in> set xs" by auto
    from Cons.IH [OF u z this] x show ?thesis by simp
  qed
qed

text \<open>\<^verbatim>\<open>Init\<close>: its shape.\<close>

lemma Read_calls:
  "\<exists>es. calls (driver (Read env key v s)) = calls (driver s) @ es \<and> E_GetAlignment \<notin> set es"
  by (auto simp: Read_def glCreateProgram_def glProgramBinary_def glDeleteProgram_def issue_def Let_def
      SetProgramVariables_def Bind_def glUseProgram_def split: option.splits)

lemma replay_calls:
  "\<exists>es. calls (driver (replay env rs s)) = calls (driver s) @ es \<and> E_GetAlignment \<notin> set es"
proof (induction rs arbitrary: s)
  case Nil
  then show ?case by simp
next
  case (Cons x rs)
  obtain k v where x: "x = (k, v)" by (cases x)
  from Read_calls [of env k v s] obtain es where
    1: "calls (driver (Read env k v s)) = calls (driver s) @ es" "E_GetAlignment \<notin> set es" by blast
  from Cons.IH [of "Read env k v s"] obtain es' where
    2: "calls (driver (replay env rs (Read env k v s))) = calls (driver (Read env k v s)) @ es'"
      "E_GetAlignment \<notin> set es'" by blast
  from 1 2 x show ?case by auto
qed

lemma Init_shape:
  "\<exists>s2 es. Init env s = s2\<lparr>CurrentProgram := 0, last_entry := None\<rparr>
     \<and> s_ubo_align s2 = (case ubo_alignment (driver s) of None \<Rightarrow> s_ubo_align s | Some a \<Rightarrow> a)
     \<and> s_ubo_buffer_size s2 =
         ucast (ROUND_UP (pixel_buffer_size env) (s_ubo_align s2)
                 + ROUND_UP (vertex_buffer_size env) (s_ubo_align s2)
                 + ROUND_UP (geometry_buffer_size env) (s_ubo_align s2))
     \<and> s_buffer s2 = Some \<lparr>m_buffer = Suc (next_name (driver s)), m_size = UBO_LENGTH, m_iterator = 0\<rparr>
     \<and> calls (driver s2) = calls (driver s) @ E_GetAlignment # E_CreateBuffer (Suc (next_name (driver s))) # es
     \<and> E_GetAlignment \<notin> set es"
proof -
  define g1 where "g1 = issue (E_CreateBuffer (Suc (next_name (driver s))))
      ((issue E_GetAlignment (driver s))\<lparr>next_name := Suc (next_name (driver s))\<rparr>)"
  define align where "align = (case ubo_alignment (driver s) of None \<Rightarrow> s_ubo_align s | Some a \<Rightarrow> a)"
  define s1 where "s1 = s\<lparr>driver := g1, s_ubo_align := align,
      s_ubo_buffer_size := ucast (ROUND_UP (pixel_buffer_size env) align
                 + ROUND_UP (vertex_buffer_size env) align
                 + ROUND_UP (geometry_buffer_size env) align),
      s_buffer := Some \<lparr>m_buffer = Suc (next_name (driver s)), m_size = UBO_LENGTH, m_iterator = 0\<rparr>\<rparr>"
  define s2 where "s2 = (if bSupportsGLSLCache s1 \<and> \<not> config_bEnableShaderDebugging env
                then (let s1' = (if num_binary_formats (driver s1) = 0
                                 then s1\<lparr>bSupportsGLSLCache := False\<rparr>
                                 else OpenAndRead env s1)
                      in s1'\<lparr>numPixelShadersAlive := int (length (pshaders s1'))\<rparr>)
                else s1)"
  have i: "Init env s = s2\<lparr>CurrentProgram := 0, last_entry := None\<rparr>"
    unfolding Init_def s2_def s1_def align_def g1_def
    by (simp add: Let_def StreamBuffer_Create_def issue_def)
  have c1: "calls (driver s1) = calls (driver s) @ [E_GetAlignment, E_CreateBuffer (Suc (next_name (driver s)))]"
    by (simp add: s1_def g1_def issue_def)
  from replay_calls [of env "disk_cache s1" s1] obtain es where
    es: "calls (driver (OpenAndRead env s1)) = calls (driver s1) @ es" "E_GetAlignment \<notin> set es"
    unfolding OpenAndRead_def by blast
  have k: "s_ubo_align (OpenAndRead env s1) = s_ubo_align s1"
    "s_ubo_buffer_size (OpenAndRead env s1) = s_ubo_buffer_size s1"
    "s_buffer (OpenAndRead env s1) = s_buffer s1"
    unfolding OpenAndRead_def by (simp_all add: replay_keeps)
  have f1: "s_ubo_align s1 = align" "s_buffer s1 = Some \<lparr>m_buffer = Suc (next_name (driver s)), m_size = UBO_LENGTH, m_iterator = 0\<rparr>"
    "s_ubo_buffer_size s1 = ucast (ROUND_UP (pixel_buffer_size env) align
                 + ROUND_UP (vertex_buffer_size env) align
                 + ROUND_UP (geometry_buffer_size env) align)"
    by (simp_all add: s1_def)
  have f2: "s_ubo_align s2 = align \<and> s_buffer s2 = s_buffer s1 \<and> s_ubo_buffer_size s2 = s_ubo_buffer_size s1
     \<and> (\<exists>es. calls (driver s2) = calls (driver s1) @ es \<and> E_GetAlignment \<notin> set es)"
    using es k f1 unfolding s2_def by (auto simp: Let_def)
  then obtain es' where "calls (driver s2) = calls (driver s1) @ es'" "E_GetAlignment \<notin> set es'"
    by blast
  with i f1 f2 c1 show ?thesis
    unfolding align_def [symmetric]
    by (intro exI [of _ s2] exI [of _ es']) simp
qed

lemma Init_ubo_sized: "ubo_sized env (Init env s)"
  using Init_shape [of env s] by (auto simp: ubo_sized_def)

text \<open>
  \<^verbatim>\<open>Init\<close> establishes what the theorems about \<^verbatim>\<open>SetShader\<close> assume of a state, and
  keeps the driver's tables consistent.
\<close>

lemma Init_ptr_ok: "ptr_ok (Init env s)"
  by (simp add: ptr_ok_def Init_def Let_def split: prod.splits)

lemma Read_wf: "gl_wf (driver s) \<Longrightarrow> gl_wf (driver (Read env key v s))"
proof -
  assume w: "gl_wf (driver s)"
  define g2 where "g2 = snd (glProgramBinary (Suc (next_name (driver s))) v (snd (glCreateProgram (driver s))))"
  have g2: "gl_wf g2" "used_program g2 = used_program (driver s)" "next_name g2 = Suc (next_name (driver s))"
    using w by (auto simp: g2_def gl_wf_def glProgramBinary_def glCreateProgram_def issue_def Let_def)
  have d: "gl_wf (glDeleteProgram (Suc (next_name (driver s))) g2)"
    using g2 by (auto simp: gl_wf_def delprog_facts)
  have b: "gl_wf (driver (Bind sh (s\<lparr>driver := g2, pshaders := ps\<rparr>)))" for sh ps
    using g2(1) by (intro Bind_wf) simp
  show ?thesis
    using d b g2(1) unfolding Read_def g2_def
    by (simp add: Let_def split_beta glCreateProgram_def SetProgramVariables_def)
qed

lemma replay_wf: "gl_wf (driver s) \<Longrightarrow> gl_wf (driver (replay env rs s))"
  by (induction rs arbitrary: s) (auto simp: Read_wf)

lemma Init_wf: "gl_wf (driver s) \<Longrightarrow> gl_wf (driver (Init env s))"
proof -
  assume w: "gl_wf (driver s)"
  define g1 where "g1 = snd (StreamBuffer_Create UBO_LENGTH (issue E_GetAlignment (driver s)))"
  have g1: "gl_wf g1"
    using w by (auto simp: g1_def gl_wf_def issue_def StreamBuffer_Create_def Let_def)
  have r: "gl_wf (driver (replay env rs s'))" if "driver s' = g1" for rs s'
    using g1 that by (intro replay_wf) simp
  show ?thesis
    unfolding Init_def
    using g1 by (auto simp: Let_def split_beta OpenAndRead_def g1_def [symmetric] intro!: r)
qed

text \<open>
  \<^verbatim>\<open>ROUND_UP\<close> rounds up: for an alignment that is a power of two, the result is the
  least multiple of the alignment that is not below the size.
\<close>

lemma and_not_mask_word: "(y :: 'a::len word) AND NOT (mask n) = push_bit n (drop_bit n y)"
  by (rule bit_eqI) (auto simp: bit_simps)

lemma scast_pow2: "n < 31 \<Longrightarrow> (scast (2 ^ n :: 32 word) :: 64 word) = 2 ^ n"
  by (rule bit_eqI) (auto simp: bit_simps)

lemma scast_not_mask: "n < 31 \<Longrightarrow> (scast (NOT (mask n) :: 32 word) :: 64 word) = NOT (mask n)"
  by (rule bit_eqI) (auto simp: bit_simps)

lemma ROUND_UP_pow2:
  assumes "n < 31"
  shows "ROUND_UP x (2 ^ n) = push_bit n (drop_bit n (x + 2 ^ n - 1))"
  using assms
  by (simp add: ROUND_UP_def scast_pow2 scast_not_mask and_not_mask_word flip: mask_eq_exp_minus_1)

lemma ROUND_UP_rounds_up:
  assumes "n < 31" and "unat x + 2 ^ n \<le> 2 ^ 64"
  shows "unat (ROUND_UP x (2 ^ n)) = ((unat x + 2 ^ n - 1) div 2 ^ n) * 2 ^ n"
proof -
  have "uint (mask n :: 64 word) = 2 ^ n - 1"
    using assms(1) unfolding uint_mask_eq by (simp add: mask_eq_exp_minus_1 min_def)
  then have "int (unat (mask n :: 64 word)) = int (2 ^ n - 1)"
    by (simp add: of_nat_diff)
  then have m: "unat (mask n :: 64 word) = 2 ^ n - 1"
    by (simp only: of_nat_eq_iff)
  have e: "x + 2 ^ n - 1 = x + mask n" by (simp add: mask_eq_exp_minus_1)
  have "unat (x + 2 ^ n - 1) = unat (x + mask n)" by (simp only: e)
  also have "\<dots> = unat x + unat (mask n :: 64 word)"
    using assms(2) m by (intro unat_add_lem [THEN iffD1]) simp
  also have "\<dots> = unat x + 2 ^ n - 1" by (simp add: m)
  finally have y: "unat (x + 2 ^ n - 1) = unat x + 2 ^ n - 1" .
  have "push_bit n (drop_bit n (unat x + 2 ^ n - 1)) \<le> unat x + 2 ^ n - 1"
    by (simp add: push_bit_eq_mult drop_bit_eq_div)
  also have "\<dots> < 2 ^ 64" using assms(2) by simp
  finally have tb: "take_bit 64 (push_bit n (drop_bit n (unat x + 2 ^ n - 1)))
      = push_bit n (drop_bit n (unat x + 2 ^ n - 1))"
    by (simp add: take_bit_nat_eq_self)
  have "unat (ROUND_UP x (2 ^ n)) = unat (push_bit n (drop_bit n (x + 2 ^ n - 1)))"
    by (simp only: ROUND_UP_pow2 [OF assms(1)])
  also have "\<dots> = take_bit LENGTH(64) (push_bit n (drop_bit n (unat (x + 2 ^ n - 1))))"
    by (simp only: unsigned_push_bit_eq unat_drop_bit_eq)
  also have "\<dots> = take_bit 64 (push_bit n (drop_bit n (unat x + 2 ^ n - 1)))"
    by (simp only: y) simp
  also have "\<dots> = push_bit n (drop_bit n (unat x + 2 ^ n - 1))" by (rule tb)
  also have "\<dots> = ((unat x + 2 ^ n - 1) div 2 ^ n) * 2 ^ n"
    by (simp add: push_bit_eq_mult drop_bit_eq_div)
  finally show ?thesis .
qed

subsection \<open>Binding\<close>

text \<open>
  C7. Binding a \<^verbatim>\<open>SHADER\<close> whose program is the tracked current program changes nothing:
  no call is made to the driver and the shader-change counter stays. Binding one with a
  different program makes exactly one call to the driver, \<^verbatim>\<open>glUseProgram\<close> of that
  program, sets the tracked current program to it and adds exactly one to the counter.
\<close>

theorem Bind_once_when_different:
  "(CurrentProgram s = glprogid sh \<longrightarrow> Bind sh s = s)
   \<and> (CurrentProgram s \<noteq> glprogid sh \<longrightarrow>
        issued (driver s) (driver (Bind sh s)) = [E_UseProgram (glprogid sh)]
        \<and> CurrentProgram (Bind sh s) = glprogid sh
        \<and> numShaderChanges (Bind sh s) = numShaderChanges s + 1)"
  by (simp add: Bind_def glUseProgram_def issue_def issued_def Let_def)

theorem Bind_once_when_different_witness:
  "Bind new_SHADER state0 = state0
   \<and> issued (driver state0) (driver (Bind (new_SHADER\<lparr>glprogid := 4\<rparr>) state0)) = [E_UseProgram 4]
   \<and> CurrentProgram (Bind (new_SHADER\<lparr>glprogid := 4\<rparr>) state0) = 4
   \<and> numShaderChanges (Bind (new_SHADER\<lparr>glprogid := 4\<rparr>) state0) = 1"
  using Bind_once_when_different [of state0 new_SHADER]
    Bind_once_when_different [of state0 "new_SHADER\<lparr>glprogid := 4\<rparr>"]
  by (simp add: state0_def new_SHADER_def)

subsection \<open>Compiling\<close>

text \<open>
  C6. When at least one stage of a compilation request fails to compile,
  \<^verbatim>\<open>CompileShader\<close> returns false and leaves the \<^verbatim>\<open>SHADER\<close> as it was; no program is
  created and none is linked (the calls that create and link programs are the same before
  and after, and so is the driver's table of programs); and every stage object created
  during the attempt, also one that compiled, is deleted before it returns and is no
  longer among the driver's shader objects. Nothing but the driver changes.
\<close>

theorem CompileShader_stage_failure:
  assumes "stage_fails (driver s) macros vcode pcode gcode"
    and "CompileShader env sh vcode pcode gcode macros s = (ok, sh', s')"
  shows "\<not> ok \<and> sh' = sh \<and> s' = s\<lparr>driver := driver s'\<rparr>
         \<and> link_calls (driver s') = link_calls (driver s)
         \<and> programs (driver s') = programs (driver s)
         \<and> (\<forall>ty n. E_CreateShader ty n \<in> set (issued (driver s) (driver s'))
              \<longrightarrow> E_DeleteShader n \<in> set (issued (driver s) (driver s'))
                  \<and> n \<notin> shaders (driver s'))"
  using assms
  by (auto simp: CompileShader_def CompileSingleShader_def stage_fails_def glCreateShader_def
      glCompileShader_def glDeleteShader_def issue_def Let_def link_calls_def issued_def
      split: option.splits if_splits prod.splits)

theorem CompileShader_stage_failure_witness:
  "stage_fails (driver state0) [] ''vs'' ''bad'' (Some ''gs'')
   \<and> (\<exists>s'. CompileShader env0 new_SHADER ''vs'' ''bad'' (Some ''gs'') [] state0 = (False, new_SHADER, s')
         \<and> programs (driver s') = programs (driver state0)
         \<and> link_calls (driver s') = link_calls (driver state0)
         \<and> issued (driver state0) (driver s') =
             [E_CreateShader GL_VERTEX_SHADER 1, E_CompileShader 1 ''vs'',
              E_CreateShader GL_FRAGMENT_SHADER 2, E_CompileShader 2 ''bad'', E_DeleteShader 2,
              E_CreateShader GL_GEOMETRY_SHADER 3, E_CompileShader 3 ''gs'',
              E_DeleteShader 1, E_DeleteShader 0, E_DeleteShader 3]
         \<and> shaders (driver s') = {})"
proof -
  have f: "stage_fails (driver state0) [] ''vs'' ''bad'' (Some ''gs'')"
    by (simp add: stage_fails_def state0_def driver0_def)
  obtain ok sh' s' where
    c: "CompileShader env0 new_SHADER ''vs'' ''bad'' (Some ''gs'') [] state0 = (ok, sh', s')"
    by (metis prod_cases3)
  have i: "issued (driver state0) (driver s') =
             [E_CreateShader GL_VERTEX_SHADER 1, E_CompileShader 1 ''vs'',
              E_CreateShader GL_FRAGMENT_SHADER 2, E_CompileShader 2 ''bad'', E_DeleteShader 2,
              E_CreateShader GL_GEOMETRY_SHADER 3, E_CompileShader 3 ''gs'',
              E_DeleteShader 1, E_DeleteShader 0, E_DeleteShader 3]
           \<and> shaders (driver s') = {}"
    using c
    by (auto simp: CompileShader_def CompileSingleShader_def glCreateShader_def
        glCompileShader_def glDeleteShader_def issue_def Let_def issued_def state0_def driver0_def)
  from CompileShader_stage_failure [OF f c] f c i show ?thesis
    by simp
qed

subsection \<open>Uploading the constants\<close>

text \<open>
  C8. \<^verbatim>\<open>UploadConstants\<close> does something only when one of the three constant sources is
  dirty: with all three clean it returns the state as it is, so nothing is mapped, copied,
  unmapped or bound. After an upload all three sources are clean, hence a second call
  right after the first returns the state of the first unchanged.
\<close>

theorem UploadConstants_only_when_dirty:
  "(\<not> (pixel_dirty s \<or> vertex_dirty s \<or> geometry_dirty s) \<longrightarrow> UploadConstants env s = Inr s)
   \<and> (\<forall>s'. UploadConstants env s = Inr s' \<longrightarrow>
         \<not> pixel_dirty s' \<and> \<not> vertex_dirty s' \<and> \<not> geometry_dirty s'
         \<and> UploadConstants env s' = Inr s')"
  by (auto simp: UploadConstants_def Let_def split: option.splits prod.splits if_splits)

theorem UploadConstants_only_when_dirty_witness:
  "pixel_dirty (Init env0 state0)
   \<and> (\<exists>s'. UploadConstants env0 (Init env0 state0) = Inr s'
         \<and> length (issued (driver (Init env0 state0)) (driver s')) = 8
         \<and> \<not> pixel_dirty s' \<and> \<not> vertex_dirty s' \<and> \<not> geometry_dirty s'
         \<and> UploadConstants env0 s' = Inr s')"
proof -
  have d: "pixel_dirty (Init env0 state0)"
    by (simp add: Init_state0) (simp add: state0_def)
  obtain s' where u: "UploadConstants env0 (Init env0 state0) = Inr s'"
    and n: "length (issued (driver (Init env0 state0)) (driver s')) = 8"
    by (simp add: Init_state0)
      (simp add: UploadConstants_def Let_def state0_def StreamBuffer_Map_def
        StreamBuffer_Unmap_def issue_def issued_def split: prod.splits)
  from UploadConstants_only_when_dirty [of s' env0]
    UploadConstants_only_when_dirty [of "Init env0 state0" env0] d u n
  show ?thesis by auto
qed

subsection \<open>The debug accessor\<close>

text \<open>
  C10. \<^verbatim>\<open>GetShaderProgram\<close> reads through \<^verbatim>\<open>last_entry\<close> without a check. Right after
  \<^verbatim>\<open>Init\<close>, which sets the pointer to null, the read is a null dereference. Once a
  \<^verbatim>\<open>SetShader\<close> call has returned after \<^verbatim>\<open>Init\<close>, and after any further
  \<^verbatim>\<open>SetShader\<close> calls, the pointer is the node of an entry and the accessor returns it.
\<close>

theorem GetShaderProgram_null_after_Init:
  "GetShaderProgram (Init env s) = Inl NullDereference
   \<and> (\<forall>r rs res s1 s2. SetShader env r (Init env s) = Inr (res, s1) \<longrightarrow> SetShaders env rs s1 = Inr s2
        \<longrightarrow> (\<exists>e. GetShaderProgram s2 = Inr e))"
proof -
  have n: "last_entry (Init env s) = None"
    by (simp add: Init_def Let_def split: prod.splits)
  have a: "GetShaderProgram (Init env s) = Inl NullDereference"
    by (simp add: GetShaderProgram_def n)
  have b: "\<exists>e. GetShaderProgram s2 = Inr e"
    if 1: "SetShader env r (Init env s) = Inr (res, s1)" and 2: "SetShaders env rs s1 = Inr s2"
    for r rs res s1 s2
  proof -
    from SetShader_sets_last [OF 1 n] have p1: "ptr_ok s1" and l1: "last_entry s1 \<noteq> None"
      by simp_all
    have p2: "ptr_ok s2" by (rule SetShaders_ptr_ok [OF 2 p1])
    from SetShaders_last_some [OF 2 l1] obtain k where "last_entry s2 = Some k" by auto
    with p2 show ?thesis by (rule ptr_ok_last_entry)
  qed
  from a b show ?thesis by blast
qed

theorem GetShaderProgram_null_after_Init_witness:
  "GetShaderProgram (Init env0 state0) = Inl NullDereference
   \<and> (\<exists>s1 s2. SetShader env0 9 (Init env0 state0) = Inr (Some 9, s1)
         \<and> SetShaders env0 [8] s1 = Inr s2
         \<and> GetShaderProgram s2 = Inr \<lparr>shader = new_SHADER\<lparr>glprogid := 9\<rparr>, in_cache = False\<rparr>)"
proof -
  have "\<exists>s1 s2. SetShader env0 9 (Init env0 state0) = Inr (Some 9, s1)
         \<and> SetShaders env0 [8] s1 = Inr s2
         \<and> GetShaderProgram s2 = Inr \<lparr>shader = new_SHADER\<lparr>glprogid := 9\<rparr>, in_cache = False\<rparr>"
    by (simp add: Init_state0)
      (simp add: SetShader_def CompileShader_def CompileSingleShader_def glCreateShader_def
        glCompileShader_def glDeleteShader_def glCreateProgram_def glLinkProgram_def
        glDeleteProgram_def glUseProgram_def issue_def Let_def state0_def driver0_def env0_def
        new_SHADER_def SetProgramVariables_def Bind_def GetShaderProgram_def)
  with GetShaderProgram_null_after_Init [of env0 state0] show ?thesis by blast
qed

subsection \<open>Resolving\<close>

text \<open>
  C1. Take a state in which \<^verbatim>\<open>last_entry\<close> is sound, a pipeline state \<open>a\<close> whose
  \<^verbatim>\<open>SetShader\<close> call returns a program (the pointer to the entry of its uid \<open>k\<close>), and
  any run of further \<^verbatim>\<open>SetShader\<close> calls. Then \<^verbatim>\<open>SetShader\<close> on \<open>a\<close> again returns the
  same pointer, the entry behind it is the one the first call left (the same program name),
  and all the call does is bind that entry's program: the calls of the compilation pipeline
  made to the driver are the same before and after.
\<close>

theorem SetShader_again_same_handle:
  assumes "ptr_ok s0"
    and "SetShader env a s0 = Inr (Some k, s1)"
    and "SetShaders env rs s1 = Inr s2"
  shows "\<exists>e. map_of (pshaders s1) k = Some e
            \<and> SetShader env a s2 = Inr (Some k, Bind (shader e) (s2\<lparr>last_uid := k, last_entry := Some k\<rparr>))
            \<and> map_of (pshaders (Bind (shader e) (s2\<lparr>last_uid := k, last_entry := Some k\<rparr>))) k = Some e
            \<and> compile_calls (driver (Bind (shader e) (s2\<lparr>last_uid := k, last_entry := Some k\<rparr>)))
                = compile_calls (driver s2)"
proof -
  from SetShader_Some_entry [OF assms(2,1)] obtain e where k: "k = ShaderUid env a"
    and e1: "map_of (pshaders s1) k = Some e" by auto
  have p1: "ptr_ok s1" by (rule SetShader_ptr_ok [OF assms(2,1)])
  have p2: "ptr_ok s2" by (rule SetShaders_ptr_ok [OF assms(3) p1])
  have e2: "map_of (pshaders s2) k = Some e" by (rule SetShaders_entries [OF assms(3) e1])
  from SetShader_hit [OF e2 [unfolded k] p2] k e1 e2 show ?thesis
    by (auto simp: Bind_keeps Bind_compile_calls)
qed

theorem SetShader_again_same_handle_witness:
  "ptr_ok (Init env0 state0)
   \<and> (\<exists>s1 s2 e. SetShader env0 9 (Init env0 state0) = Inr (Some 9, s1)
         \<and> SetShaders env0 [6, 8] s1 = Inr s2
         \<and> map_of (pshaders s1) 9 = Some e \<and> glprogid (shader e) = 5
         \<and> SetShader env0 9 s2 = Inr (Some 9, Bind (shader e) (s2\<lparr>last_uid := 9, last_entry := Some 9\<rparr>))
         \<and> map_of (pshaders (Bind (shader e) (s2\<lparr>last_uid := 9, last_entry := Some 9\<rparr>))) 9 = Some e
         \<and> compile_calls (driver (Bind (shader e) (s2\<lparr>last_uid := 9, last_entry := Some 9\<rparr>)))
             = compile_calls (driver s2))"
proof -
  have p: "ptr_ok (Init env0 state0)"
    by (simp add: Init_state0_fields ptr_ok_def)
  obtain s1 s2 where a: "SetShader env0 9 (Init env0 state0) = Inr (Some 9, s1)"
    and b: "SetShaders env0 [6, 8] s1 = Inr s2"
    and g: "map_of (pshaders s1) 9 = Some \<lparr>shader = new_SHADER\<lparr>glprogid := 5\<rparr>, in_cache = False\<rparr>"
  proof -
    have "\<exists>s1 s2. SetShader env0 9 (Init env0 state0) = Inr (Some 9, s1)
        \<and> SetShaders env0 [6, 8] s1 = Inr s2
        \<and> map_of (pshaders s1) 9 = Some \<lparr>shader = new_SHADER\<lparr>glprogid := 5\<rparr>, in_cache = False\<rparr>"
      by (simp add: Init_state0)
      (simp add: SetShader_def CompileShader_def CompileSingleShader_def glCreateShader_def
        glCompileShader_def glDeleteShader_def glCreateProgram_def glLinkProgram_def
        glDeleteProgram_def glUseProgram_def issue_def Let_def state0_def driver0_def env0_def
        new_SHADER_def SetProgramVariables_def Bind_def)
    then show thesis using that by blast
  qed
  from SetShader_again_same_handle [OF p a b] g p a b show ?thesis
    by (intro conjI exI [of _ s1] exI [of _ s2]) auto
qed



subsection \<open>The replay of the disk cache\<close>

text \<open>
  C2, as the code has it. \<^verbatim>\<open>Read\<close> stores the entry of a record that loads with
  \<^verbatim>\<open>pshaders[key] = entry\<close>, which replaces an entry the map already holds for the key.
  So the last record of a key that loads wins: when a record \<open>(k, v)\<close> loads and no later
  record of \<open>k\<close> loads, then after the replay the entry of \<open>k\<close> is the one made from
  that record, with the program created when it was read, whatever records came before it.
  A record that does not load replaces nothing.
\<close>

theorem replay_last_loaded_wins:
  assumes "binary_ok (driver s) v"
    and "\<forall>(k', v') \<in> set rs2. k' = k \<longrightarrow> \<not> binary_ok (driver s) v'"
  shows "map_of (pshaders (replay env (rs1 @ (k, v) # rs2) s)) k =
           Some \<lparr>shader = new_SHADER\<lparr>glprogid := Suc (next_name (driver (replay env rs1 s)))\<rparr>,
                 in_cache = True\<rparr>"
proof -
  let ?s1 = "replay env rs1 s"
  have b: "binary_ok (driver ?s1) = binary_ok (driver s)" by (simp add: replay_keeps)
  have 1: "map_of (pshaders (Read env k v ?s1)) k =
           Some \<lparr>shader = new_SHADER\<lparr>glprogid := Suc (next_name (driver ?s1))\<rparr>, in_cache = True\<rparr>"
    using assms(1) b by (cases rule: Read_cases [of ?s1 v env k]) (auto simp: map_of_pc_store)
  have "\<forall>(k', v') \<in> set rs2. k' = k \<longrightarrow> \<not> binary_ok (driver (Read env k v ?s1)) v'"
    using assms(2) b by (simp add: Read_keeps)
  from replay_rejected [OF this] 1 show ?thesis by (simp add: replay_append)
qed

theorem replay_last_loaded_wins_witness:
  "binary_ok (driver state0) [0, 0, 0, 0, 2] \<and> \<not> binary_ok (driver state0) []
   \<and> map_of (pshaders (replay env0 ([(1, [0, 0, 0, 0, 1])] @ (1, [0, 0, 0, 0, 2]) # [(2, [0, 0, 0, 0, 3]), (1, [])]) state0)) 1
       = Some \<lparr>shader = new_SHADER\<lparr>glprogid := 2\<rparr>, in_cache = True\<rparr>"
proof -
  have a: "binary_ok (driver state0) [0, 0, 0, 0, 2]" and n: "\<not> binary_ok (driver state0) []"
    by (simp_all add: state0_def driver0_def)
  have b: "\<forall>(k', v') \<in> set [(2, [0, 0, 0, 0, 3]), (1::nat, [])]. k' = 1 \<longrightarrow> \<not> binary_ok (driver state0) v'"
    using n by simp
  have c: "Suc (next_name (driver (replay env0 [(1, [0, 0, 0, 0, 1])] state0))) = 2"
    by (simp add: Read_def glCreateProgram_def glProgramBinary_def glDeleteProgram_def issue_def
        Let_def SetProgramVariables_def Bind_def glUseProgram_def state0_def driver0_def env0_def
        new_SHADER_def)
  from replay_last_loaded_wins [OF a b, of env0 "[(1, [0, 0, 0, 0, 1])]"] a n show ?thesis
    unfolding c by simp
qed

text \<open>
  C2, as the claim states it, fails: the first record of key 1 loads and gives the entry
  with program 1; the second record of the same key loads too, and after the replay of
  both the entry of key 1 holds program 2. The same through \<^verbatim>\<open>Init\<close>, where the stream
  buffer takes the name 1 and the two programs are 2 and 3.
\<close>

theorem replay_first_does_not_win:
  "pshaders (Read env0 1 [0, 0, 0, 0, 1] state0) = [(1, \<lparr>shader = new_SHADER\<lparr>glprogid := 1\<rparr>, in_cache = True\<rparr>)]
   \<and> pshaders (replay env0 [(1, [0, 0, 0, 0, 1]), (1, [0, 0, 0, 0, 2])] state0)
      = [(1, \<lparr>shader = new_SHADER\<lparr>glprogid := 2\<rparr>, in_cache = True\<rparr>)]
   \<and> pshaders (Init env0 (state0\<lparr>disk_cache := [(1, [0, 0, 0, 0, 1]), (1, [0, 0, 0, 0, 2])]\<rparr>))
      = [(1, \<lparr>shader = new_SHADER\<lparr>glprogid := 3\<rparr>, in_cache = True\<rparr>)]"
  by (simp add: Init_def OpenAndRead_def StreamBuffer_Create_def Read_def glCreateProgram_def glProgramBinary_def glDeleteProgram_def issue_def Let_def
      SetProgramVariables_def Bind_def glUseProgram_def state0_def driver0_def env0_def new_SHADER_def)

subsection \<open>Shutdown\<close>

text \<open>
  C4, as the code has it. After \<^verbatim>\<open>Shutdown\<close>, in a driver where zero names no program:
  no program is in use (\<^verbatim>\<open>glUseProgram(0)\<close> was called), \<^verbatim>\<open>glDeleteProgram\<close> was called
  on the program of every entry of the map and the driver holds none of them any more, and
  the map is empty. \<^verbatim>\<open>Shutdown\<close> does not touch \<^verbatim>\<open>last_entry\<close>: the pointer keeps the
  value it had (it is \<^verbatim>\<open>Init\<close> that sets it to null).
\<close>

theorem Shutdown_destroys_all:
  assumes "programs (driver s) 0 = None"
  shows "used_program (driver (Shutdown env s)) = 0
         \<and> E_UseProgram 0 \<in> set (issued (driver s) (driver (Shutdown env s)))
         \<and> (\<forall>(k, e) \<in> set (pshaders s).
               E_DeleteProgram (glprogid (shader e)) \<in> set (issued (driver s) (driver (Shutdown env s)))
               \<and> programs (driver (Shutdown env s)) (glprogid (shader e)) = None)
         \<and> pshaders (Shutdown env s) = []
         \<and> last_entry (Shutdown env s) = last_entry s"
proof -
  define s1 where "s1 = (if bSupportsGLSLCache s \<and> \<not> config_bEnableShaderDebugging env
                then s\<lparr>disk_cache := disk_cache s @ shutdown_records (driver s) (pshaders s)\<rparr>
                else s)"
  define g1 where "g1 = glUseProgram 0 (driver s)"
  define g2 where "g2 = destroy_all (pshaders s) g1"
  have s1: "driver s1 = driver s" "pshaders s1 = pshaders s" "last_entry s1 = last_entry s"
    "s_buffer s1 = s_buffer s"
    by (simp_all add: s1_def)
  have sd: "Shutdown env s = s1\<lparr>driver := StreamBuffer_delete (s_buffer s) g2, pshaders := [], s_buffer := None\<rparr>"
    unfolding Shutdown_def s1_def [symmetric] by (simp add: Let_def s1 g1_def g2_def)
  have g1: "used_program g1 = 0" "programs g1 0 = None" "calls g1 = calls (driver s) @ [E_UseProgram 0]"
    using assms by (auto simp: g1_def glUseProgram_def issue_def Let_def split: option.splits)
  have g3: "used_program (StreamBuffer_delete b g2) = used_program g2"
    "programs (StreamBuffer_delete b g2) = programs g2"
    "\<exists>es. calls (StreamBuffer_delete b g2) = calls g2 @ es" for b
    by (auto simp: StreamBuffer_delete_def issue_def split: option.splits)
  obtain es where es: "calls (StreamBuffer_delete (s_buffer s) g2) = calls g2 @ es"
    using g3(3) by blast
  have iss: "issued (driver s) (driver (Shutdown env s)) =
      E_UseProgram 0 # map (\<lambda>(k, e). E_DeleteProgram (glprogid (shader e))) (pshaders s) @ es"
  proof -
    have "calls (driver (Shutdown env s)) = calls g2 @ es" by (simp add: sd es)
    moreover have "calls g2 = calls (driver s) @ E_UseProgram 0
        # map (\<lambda>(k, e). E_DeleteProgram (glprogid (shader e))) (pshaders s)"
      by (simp add: g2_def destroy_all_calls g1)
    ultimately show ?thesis by (simp add: issued_def)
  qed
  have d: "programs g2 (glprogid (shader e)) = None" if "(k, e) \<in> set (pshaders s)" for k e
    unfolding g2_def by (rule destroy_all_destroys [OF g1(1,2) that])
  have u2: "used_program g2 = 0" by (simp add: g2_def destroy_all_used g1)
  show ?thesis
    unfolding iss
    by (auto simp: sd g3 s1 d u2 intro!: image_eqI)
qed

theorem Shutdown_destroys_all_witness:
  "programs (driver state0) 0 = None
   \<and> (case SetShader env0 9 (Init env0 state0) of
      Inl err \<Rightarrow> False
    | Inr (res, s) \<Rightarrow> programs (driver s) 0 = None \<and> pshaders s = [(9, \<lparr>shader = new_SHADER\<lparr>glprogid := 5\<rparr>, in_cache = False\<rparr>)]
        \<and> linked_program (driver s) 5
        \<and> used_program (driver (Shutdown env0 s)) = 0
        \<and> E_DeleteProgram 5 \<in> set (issued (driver s) (driver (Shutdown env0 s)))
        \<and> programs (driver (Shutdown env0 s)) 5 = None
        \<and> pshaders (Shutdown env0 s) = []
        \<and> last_entry (Shutdown env0 s) = last_entry s)"
proof -
  obtain s where a: "SetShader env0 9 (Init env0 state0) = Inr (Some 9, s)"
    and b: "programs (driver s) 0 = None"
    and c: "pshaders s = [(9, \<lparr>shader = new_SHADER\<lparr>glprogid := 5\<rparr>, in_cache = False\<rparr>)]"
    and d: "linked_program (driver s) 5"
  proof -
    have "\<exists>s. SetShader env0 9 (Init env0 state0) = Inr (Some 9, s) \<and> programs (driver s) 0 = None
      \<and> pshaders s = [(9, \<lparr>shader = new_SHADER\<lparr>glprogid := 5\<rparr>, in_cache = False\<rparr>)]
      \<and> linked_program (driver s) 5"
      by (simp add: Init_state0)
        (simp add: SetShader_def CompileShader_def CompileSingleShader_def glCreateShader_def
          glCompileShader_def glDeleteShader_def glCreateProgram_def glLinkProgram_def
          glDeleteProgram_def glUseProgram_def issue_def Let_def state0_def driver0_def env0_def
          new_SHADER_def SetProgramVariables_def Bind_def linked_program_def)
    then show thesis using that by blast
  qed
  have z: "programs (driver state0) 0 = None" by (simp add: state0_def driver0_def)
  from Shutdown_destroys_all [OF b, of env0] a b c d z show ?thesis
    by (simp add: new_SHADER_def)
qed

text \<open>
  C4, as the claim states it, fails: after \<^verbatim>\<open>Init\<close> and a \<^verbatim>\<open>SetShader\<close> call that
  compiles the state 9, \<^verbatim>\<open>last_entry\<close> points to the entry of 9, and after
  \<^verbatim>\<open>Shutdown\<close> it still does, while the map is empty: the pointer is not null, it dangles.
\<close>

theorem Shutdown_keeps_last_entry:
  "(case SetShader env0 9 (Init env0 state0) of
      Inl err \<Rightarrow> False
    | Inr (res, s) \<Rightarrow>
        res = Some 9 \<and> last_entry s = Some 9
        \<and> last_entry (Shutdown env0 s) = Some 9
        \<and> pshaders (Shutdown env0 s) = []
        \<and> GetShaderProgram (Shutdown env0 s) = Inl DanglingDereference)"
  by (simp add: Init_state0)
    (simp add: SetShader_def CompileShader_def CompileSingleShader_def glCreateShader_def
        glCompileShader_def glDeleteShader_def glCreateProgram_def glLinkProgram_def
        glDeleteProgram_def glUseProgram_def issue_def Let_def state0_def driver0_def env0_def
        new_SHADER_def SetProgramVariables_def Bind_def Shutdown_def GetShaderProgram_def)

subsection \<open>Initialization\<close>

text \<open>
  C5, as the code has it. \<^verbatim>\<open>Init\<close> asks the driver for the uniform-buffer alignment
  exactly once and stores the answer (a query that fails leaves \<^verbatim>\<open>s_ubo_align\<close> as it
  was). It does not check the value: whatever the answer, it computes the buffer size from
  it and creates the stream buffer.
\<close>

theorem Init_queries_alignment_once:
  "count_list (issued (driver s) (driver (Init env s))) E_GetAlignment = 1
   \<and> s_ubo_align (Init env s) = (case ubo_alignment (driver s) of None \<Rightarrow> s_ubo_align s | Some a \<Rightarrow> a)
   \<and> s_buffer (Init env s) = Some \<lparr>m_buffer = Suc (next_name (driver s)), m_size = UBO_LENGTH, m_iterator = 0\<rparr>
   \<and> ubo_sized env (Init env s)"
proof -
  from Init_shape [of env s] obtain s2 es where
    h: "Init env s = s2\<lparr>CurrentProgram := 0, last_entry := None\<rparr>"
     "s_ubo_align s2 = (case ubo_alignment (driver s) of None \<Rightarrow> s_ubo_align s | Some a \<Rightarrow> a)"
     "s_buffer s2 = Some \<lparr>m_buffer = Suc (next_name (driver s)), m_size = UBO_LENGTH, m_iterator = 0\<rparr>"
     "calls (driver s2) = calls (driver s) @ E_GetAlignment # E_CreateBuffer (Suc (next_name (driver s))) # es"
     "E_GetAlignment \<notin> set es"
    by blast
  have "count_list es E_GetAlignment = 0" using h(5) by (simp add: count_list_0_iff)
  with h Init_ubo_sized [of env s] show ?thesis by (simp add: issued_def)
qed

text \<open>
  C5, as the claim states it, fails: with a driver that reports the alignment zero,
  \<^verbatim>\<open>Init\<close> stores zero, computes the size zero and creates the stream buffer; and with
  a driver whose query fails, in a process that has just started, the alignment stays zero
  and the stream buffer is created all the same.
\<close>

theorem Init_accepts_zero_alignment:
  "s_ubo_align (Init env0 (state0\<lparr>driver := driver0\<lparr>ubo_alignment := Some 0\<rparr>\<rparr>)) = 0
   \<and> s_ubo_buffer_size (Init env0 (state0\<lparr>driver := driver0\<lparr>ubo_alignment := Some 0\<rparr>\<rparr>)) = 0
   \<and> s_buffer (Init env0 (state0\<lparr>driver := driver0\<lparr>ubo_alignment := Some 0\<rparr>\<rparr>))
       = Some \<lparr>m_buffer = 1, m_size = 33554432, m_iterator = 0\<rparr>
   \<and> s_ubo_align (Init env0 (state0\<lparr>driver := driver0\<lparr>ubo_alignment := None\<rparr>\<rparr>)) = 0
   \<and> s_buffer (Init env0 (state0\<lparr>driver := driver0\<lparr>ubo_alignment := None\<rparr>\<rparr>))
       = Some \<lparr>m_buffer = 1, m_size = 33554432, m_iterator = 0\<rparr>"
  by (simp add: Init_def Let_def state0_def StreamBuffer_Create_def issue_def env0_def
      driver0_def OpenAndRead_def ROUND_UP_def UBO_LENGTH_def)

subsection \<open>The layout of an upload\<close>

text \<open>
  C9. Take a state whose \<^verbatim>\<open>s_ubo_buffer_size\<close> is the one \<^verbatim>\<open>Init\<close> computed from the
  stored alignment, with a dirty constant source and a stream buffer, and let the three
  rounded-up block sizes together fit the \<^verbatim>\<open>u32\<close> that holds the size. Then the size is
  exactly the sum of the three block sizes, each rounded up to the alignment, and
  \<^verbatim>\<open>UploadConstants\<close> makes these calls and no others: it maps a region of that size;
  copies the pixel block to offset 0, the vertex block to the rounded-up pixel size and the
  geometry block to the sum of the two rounded-up sizes; unmaps; and binds, at the binding
  points 1, 2 and 3, the ranges that start at the offset of the mapped region plus those
  same three offsets, each with the unrounded length of its block.
\<close>

theorem UploadConstants_layout:
  assumes "ubo_sized env s"
    and "pixel_dirty s \<or> vertex_dirty s \<or> geometry_dirty s"
    and "s_buffer s = Some b"
    and "unat (ROUND_UP (pixel_buffer_size env) (s_ubo_align s))
         + unat (ROUND_UP (vertex_buffer_size env) (s_ubo_align s))
         + unat (ROUND_UP (geometry_buffer_size env) (s_ubo_align s)) < 2 ^ 32"
  shows "unat (s_ubo_buffer_size s) =
           unat (ROUND_UP (pixel_buffer_size env) (s_ubo_align s))
           + unat (ROUND_UP (vertex_buffer_size env) (s_ubo_align s))
           + unat (ROUND_UP (geometry_buffer_size env) (s_ubo_align s))
         \<and> (\<exists>s'. UploadConstants env s = Inr s'
              \<and> issued (driver s) (driver s') =
                  [E_Map (s_ubo_buffer_size s) (s_ubo_align s),
                   E_Memcpy PixelBlock 0 (pixel_buffer_size env),
                   E_Memcpy VertexBlock (ROUND_UP (pixel_buffer_size env) (s_ubo_align s)) (vertex_buffer_size env),
                   E_Memcpy GeometryBlock
                     (ROUND_UP (pixel_buffer_size env) (s_ubo_align s)
                      + ROUND_UP (vertex_buffer_size env) (s_ubo_align s)) (geometry_buffer_size env),
                   E_Unmap (s_ubo_buffer_size s),
                   E_BindBufferRange 1 (m_buffer b)
                     (ucast (fst (StreamBuffer_Map (s_ubo_buffer_size s) (s_ubo_align s) b)))
                     (pixel_buffer_size env),
                   E_BindBufferRange 2 (m_buffer b)
                     (ucast (fst (StreamBuffer_Map (s_ubo_buffer_size s) (s_ubo_align s) b))
                      + ROUND_UP (pixel_buffer_size env) (s_ubo_align s))
                     (vertex_buffer_size env),
                   E_BindBufferRange 3 (m_buffer b)
                     (ucast (fst (StreamBuffer_Map (s_ubo_buffer_size s) (s_ubo_align s) b))
                      + ROUND_UP (pixel_buffer_size env) (s_ubo_align s)
                      + ROUND_UP (vertex_buffer_size env) (s_ubo_align s))
                     (geometry_buffer_size env)])"
proof -
  let ?p = "ROUND_UP (pixel_buffer_size env) (s_ubo_align s)"
  let ?v = "ROUND_UP (vertex_buffer_size env) (s_ubo_align s)"
  let ?g = "ROUND_UP (geometry_buffer_size env) (s_ubo_align s)"
  have "unat (?p + ?v + ?g) = unat ?p + unat ?v + unat ?g"
    using assms(4) by (simp add: unat_word_ariths)
  moreover have "unat (ucast (?p + ?v + ?g) :: u32) = unat (?p + ?v + ?g)"
    using assms(4) calculation by (simp add: unsigned_ucast_eq take_bit_eq_mod)
  ultimately have a: "unat (s_ubo_buffer_size s) = unat ?p + unat ?v + unat ?g"
    using assms(1) by (simp add: ubo_sized_def)
  have b: "\<exists>s'. UploadConstants env s = Inr s' \<and> issued (driver s) (driver s') =
                  [E_Map (s_ubo_buffer_size s) (s_ubo_align s),
                   E_Memcpy PixelBlock 0 (pixel_buffer_size env),
                   E_Memcpy VertexBlock ?p (vertex_buffer_size env),
                   E_Memcpy GeometryBlock (?p + ?v) (geometry_buffer_size env),
                   E_Unmap (s_ubo_buffer_size s),
                   E_BindBufferRange 1 (m_buffer b)
                     (ucast (fst (StreamBuffer_Map (s_ubo_buffer_size s) (s_ubo_align s) b)))
                     (pixel_buffer_size env),
                   E_BindBufferRange 2 (m_buffer b)
                     (ucast (fst (StreamBuffer_Map (s_ubo_buffer_size s) (s_ubo_align s) b)) + ?p)
                     (vertex_buffer_size env),
                   E_BindBufferRange 3 (m_buffer b)
                     (ucast (fst (StreamBuffer_Map (s_ubo_buffer_size s) (s_ubo_align s) b)) + ?p + ?v)
                     (geometry_buffer_size env)]"
    using assms(2,3)
    by (auto simp: UploadConstants_def Let_def issue_def issued_def StreamBuffer_Map_def
        StreamBuffer_Unmap_def split: prod.splits)
  from a b show ?thesis by blast
qed

theorem UploadConstants_layout_witness:
  "ubo_sized env0 (Init env0 state0) \<and> pixel_dirty (Init env0 state0)
   \<and> s_buffer (Init env0 state0) = Some \<lparr>m_buffer = 1, m_size = 33554432, m_iterator = 0\<rparr>
   \<and> s_ubo_align (Init env0 state0) = 256
   \<and> unat (s_ubo_buffer_size (Init env0 state0)) = 2304 + 3840 + 256
   \<and> (\<exists>s'. UploadConstants env0 (Init env0 state0) = Inr s'
         \<and> issued (driver (Init env0 state0)) (driver s') =
             [E_Map 6400 256, E_Memcpy PixelBlock 0 2096, E_Memcpy VertexBlock 2304 3840,
              E_Memcpy GeometryBlock 6144 48, E_Unmap 6400,
              E_BindBufferRange 1 1 0 2096, E_BindBufferRange 2 1 2304 3840,
              E_BindBufferRange 3 1 6144 48])"
proof -
  have f: "s_buffer (Init env0 state0) = Some \<lparr>m_buffer = 1, m_size = 33554432, m_iterator = 0\<rparr>"
    "s_ubo_align (Init env0 state0) = 256" "pixel_dirty (Init env0 state0)"
    "s_ubo_buffer_size (Init env0 state0) = 6400"
    by (simp_all add: Init_state0) (simp_all add: state0_def)
  have d: "pixel_dirty (Init env0 state0) \<or> vertex_dirty (Init env0 state0) \<or> geometry_dirty (Init env0 state0)"
    using f by simp
  have r: "ROUND_UP 2096 256 = 2304" "ROUND_UP 3840 256 = 3840" "ROUND_UP 48 256 = 256"
    "pixel_buffer_size env0 = 2096" "vertex_buffer_size env0 = 3840" "geometry_buffer_size env0 = 48"
    by (simp_all add: env0_def ROUND_UP_def)
  have n: "unat (ROUND_UP (pixel_buffer_size env0) (s_ubo_align (Init env0 state0)))
         + unat (ROUND_UP (vertex_buffer_size env0) (s_ubo_align (Init env0 state0)))
         + unat (ROUND_UP (geometry_buffer_size env0) (s_ubo_align (Init env0 state0))) < 2 ^ 32"
    by (simp add: f r)
  have m: "fst (StreamBuffer_Map 6400 256 \<lparr>m_buffer = n, m_size = 33554432, m_iterator = 0\<rparr>) = 0" for n
    by (simp add: StreamBuffer_Map_def Let_def ROUND_UP_def)
  from UploadConstants_layout [OF Init_ubo_sized d f(1) n] Init_ubo_sized [of env0 state0] show ?thesis
    by (simp add: f r m)
qed

end
